theory Spec2Isabelle
  imports Complex_Main
begin

section \<open>Numbers and errors\<close>

text \<open>
  Python integers are \<open>int\<close> (counts that \<open>len\<close> and \<open>value_counts\<close> return are \<open>nat\<close>).
  Floats are idealised as reals: rounding and the overflow of float arithmetic are not
  modelled. What is modelled
  is the difference between the two kinds of float the code mixes. A Python \<open>float\<close> or
  \<open>int\<close> divided by zero raises \<open>ZeroDivisionError\<close>; a NumPy scalar (what \<open>np.sqrt\<close>,
  \<open>Series.sum\<close>, \<open>value_counts\<close> and \<open>scipy.stats.norm\<close> return) divided by zero gives
  \<open>inf\<close> or \<open>nan\<close> with a warning and no exception, and \<open>np.sqrt\<close> of a negative number
  gives \<open>nan\<close>. Signed zeros are not distinguished: a zero denominator is \<open>+0.0\<close>, the only
  zero that non-negative counts produce. A Python integer of magnitude \<open>2^1024 - 2^970\<close> or
  more does not convert to a float: dividing a float by it raises \<open>OverflowError\<close>.
\<close>

datatype error = KeyError | ZeroDivisionError | OverflowError

datatype npfloat = Fin real | PInf | NInf | NaN

definition py_div :: "real \<Rightarrow> real \<Rightarrow> error + real" where
  "py_div a b = (if b = 0 then Inl ZeroDivisionError else Inr (a / b))"

text \<open>Sequencing of statements: the first exception ends the run.\<close>

definition bind_err :: "error + 'a \<Rightarrow> ('a \<Rightarrow> error + 'b) \<Rightarrow> error + 'b" where
  "bind_err m f = (case m of Inl e \<Rightarrow> Inl e | Inr x \<Rightarrow> f x)"

fun np_neg :: "npfloat \<Rightarrow> npfloat" where
  "np_neg (Fin x) = Fin (- x)"
| "np_neg PInf = NInf"
| "np_neg NInf = PInf"
| "np_neg NaN = NaN"

fun np_add :: "npfloat \<Rightarrow> npfloat \<Rightarrow> npfloat" where
  "np_add (Fin x) (Fin y) = Fin (x + y)"
| "np_add NaN _ = NaN"
| "np_add _ NaN = NaN"
| "np_add PInf NInf = NaN"
| "np_add NInf PInf = NaN"
| "np_add PInf _ = PInf"
| "np_add _ PInf = PInf"
| "np_add NInf _ = NInf"
| "np_add _ NInf = NInf"

definition np_sub :: "npfloat \<Rightarrow> npfloat \<Rightarrow> npfloat" where
  "np_sub a b = np_add a (np_neg b)"

fun np_mul :: "npfloat \<Rightarrow> npfloat \<Rightarrow> npfloat" where
  "np_mul (Fin x) (Fin y) = Fin (x * y)"
| "np_mul NaN _ = NaN"
| "np_mul _ NaN = NaN"
| "np_mul PInf (Fin y) = (if y = 0 then NaN else if 0 < y then PInf else NInf)"
| "np_mul NInf (Fin y) = (if y = 0 then NaN else if 0 < y then NInf else PInf)"
| "np_mul (Fin x) PInf = (if x = 0 then NaN else if 0 < x then PInf else NInf)"
| "np_mul (Fin x) NInf = (if x = 0 then NaN else if 0 < x then NInf else PInf)"
| "np_mul PInf PInf = PInf"
| "np_mul PInf NInf = NInf"
| "np_mul NInf PInf = NInf"
| "np_mul NInf NInf = PInf"

fun np_div :: "npfloat \<Rightarrow> npfloat \<Rightarrow> npfloat" where
  "np_div (Fin x) (Fin y) =
     (if y = 0 then (if x = 0 then NaN else if 0 < x then PInf else NInf) else Fin (x / y))"
| "np_div NaN _ = NaN"
| "np_div _ NaN = NaN"
| "np_div (Fin x) PInf = Fin 0"
| "np_div (Fin x) NInf = Fin 0"
| "np_div PInf (Fin y) = (if 0 \<le> y then PInf else NInf)"
| "np_div NInf (Fin y) = (if 0 \<le> y then NInf else PInf)"
| "np_div PInf PInf = NaN"
| "np_div PInf NInf = NaN"
| "np_div NInf PInf = NaN"
| "np_div NInf NInf = NaN"

fun np_abs :: "npfloat \<Rightarrow> npfloat" where
  "np_abs (Fin x) = Fin \<bar>x\<bar>"
| "np_abs PInf = PInf"
| "np_abs NInf = PInf"
| "np_abs NaN = NaN"

fun np_sqrt :: "npfloat \<Rightarrow> npfloat" where
  "np_sqrt (Fin x) = (if x < 0 then NaN else Fin (sqrt x))"
| "np_sqrt PInf = PInf"
| "np_sqrt NInf = NaN"
| "np_sqrt NaN = NaN"

text \<open>\<open>a < b\<close> on floats: every comparison with \<open>nan\<close> is false.\<close>

fun np_less :: "npfloat \<Rightarrow> npfloat \<Rightarrow> bool" where
  "np_less NaN _ = False"
| "np_less _ NaN = False"
| "np_less (Fin x) (Fin y) = (x < y)"
| "np_less NInf NInf = False"
| "np_less NInf _ = True"
| "np_less _ NInf = False"
| "np_less PInf _ = False"
| "np_less (Fin x) PInf = True"

section \<open>The dataset\<close>

text \<open>
  A \<open>pandas.DataFrame\<close>: the column labels, and the rows, each giving a cell for a label.
  A cell is missing (\<open>None\<close>/\<open>NaN\<close>), a string or a boolean, the value kinds of the columns
  the code reads. Selecting a column that is not among the labels raises \<open>KeyError\<close>.
  The frame also records which columns have the dtype \<open>bool\<close>; the other columns have the
  dtype \<open>object\<close>. The dtype decides the kind of a column's sum: a NumPy integer for
  \<open>bool\<close>, a Python integer for \<open>object\<close>.
\<close>

datatype cell = Null | Str string | Bool bool

record dataframe =
  columns :: "string list"
  rows :: "(string \<Rightarrow> cell) list"
  bool_dtype :: "string list"

definition get_column :: "dataframe \<Rightarrow> string \<Rightarrow> error + cell list" where
  "get_column df c = (if c \<in> set (columns df) then Inr (map (\<lambda>r. r c) (rows df)) else Inl KeyError)"

text \<open>\<open>df[cols]\<close> with a list of labels: \<open>KeyError\<close> when any of them is missing.\<close>

definition get_columns :: "dataframe \<Rightarrow> string list \<Rightarrow> error + (string \<times> cell list) list" where
  "get_columns df cs =
     (if list_all (\<lambda>c. c \<in> set (columns df)) cs
      then Inr (map (\<lambda>c. (c, map (\<lambda>r. r c) (rows df))) cs)
      else Inl KeyError)"

text \<open>
  \<open>Series.value_counts().get(label, 0)\<close>: the count of the cells equal to the label, a
  NumPy integer, when the label occurs; the default, the Python integer \<open>0\<close>, when it does
  not. \<open>None\<close> stands for the default.
\<close>

definition value_count :: "cell list \<Rightarrow> string \<Rightarrow> nat option" where
  "value_count cs l =
     (let c = length (filter (\<lambda>x. x = Str l) cs) in if c = 0 then None else Some c)"

text \<open>\<open>Series.unique()\<close>: the distinct values in the order of first occurrence.\<close>

definition unique :: "'a list \<Rightarrow> 'a list" where
  "unique xs = rev (remdups (rev xs))"

definition count_true :: "cell list \<Rightarrow> nat" where
  "count_true cs = length (filter (\<lambda>x. x = Bool True) cs)"

section \<open>Validation (src/validation/checks.py)\<close>

text \<open>
  A \<open>ValidationResult\<close>: its name, its passed flag and its severity. The message, formatted
  text for the reader, is left out. The severity defaults to \<open>'error'\<close>.
\<close>

record ValidationResult =
  check_name :: string
  passed :: bool
  severity :: string

definition mk_result :: "string \<Rightarrow> bool \<Rightarrow> ValidationResult" where
  "mk_result name p = \<lparr>check_name = name, passed = p, severity = ''error''\<rparr>"

definition mk_result_sev :: "string \<Rightarrow> bool \<Rightarrow> string \<Rightarrow> ValidationResult" where
  "mk_result_sev name p s = \<lparr>check_name = name, passed = p, severity = s\<rparr>"

type_synonym ValidationReport = "ValidationResult list"

text \<open>\<open>ValidationReport.passed\<close>: \<open>all(r.passed for r in self.results if r.severity == 'error')\<close>.\<close>

definition report_passed :: "ValidationReport \<Rightarrow> bool" where
  "report_passed rs = list_all passed (filter (\<lambda>r. severity r = ''error'') rs)"

text \<open>\<open>ValidationReport.warnings\<close>.\<close>

definition report_warnings :: "ValidationReport \<Rightarrow> ValidationResult list" where
  "report_warnings rs = filter (\<lambda>r. severity r = ''warning'' \<and> \<not> passed r) rs"

text \<open>The \<open>DataValidator\<close>: the dataset and the results appended so far.\<close>

record DataValidator =
  df :: dataframe
  results :: "ValidationResult list"

definition DataValidator_init :: "dataframe \<Rightarrow> DataValidator" where
  "DataValidator_init d = \<lparr>df = d, results = []\<rparr>"

definition append_result :: "DataValidator \<Rightarrow> ValidationResult \<Rightarrow> DataValidator" where
  "append_result v r = v\<lparr>results := results v @ [r]\<rparr>"

definition required_cols :: "string list" where
  "required_cols = [''user_id'', ''experiment_id'', ''variant'', ''assigned_at'',
     ''first_exposed_at'', ''eligible'', ''clicked'', ''converted'',
     ''device_category'', ''country'']"

definition check_schema :: "DataValidator \<Rightarrow> error + DataValidator" where
  "check_schema v =
     (let missing = filter (\<lambda>c. c \<notin> set (columns (df v))) required_cols in
      if missing \<noteq> [] then Inr (append_result v (mk_result ''Schema Check'' False))
      else Inr (append_result v (mk_result ''Schema Check'' True)))"

definition required_non_null :: "string list" where
  "required_non_null = [''user_id'', ''variant'', ''eligible'', ''clicked'', ''converted'']"

definition check_nulls :: "DataValidator \<Rightarrow> error + DataValidator" where
  "check_nulls v =
     (case get_columns (df v) required_non_null of
        Inl e \<Rightarrow> Inl e
      | Inr cols \<Rightarrow>
          (let null_counts = map (\<lambda>(c, cells). length (filter (\<lambda>x. x = Null) cells)) cols;
               has_nulls = (sum_list null_counts > 0) in
           if has_nulls then Inr (append_result v (mk_result ''Null Check'' False))
           else Inr (append_result v (mk_result ''Null Check'' True))))"

definition check_variants :: "DataValidator \<Rightarrow> error + DataValidator" where
  "check_variants v =
     (case get_column (df v) ''variant'' of
        Inl e \<Rightarrow> Inl e
      | Inr cells \<Rightarrow>
          (let invalid = filter (\<lambda>x. x \<noteq> Str ''control'' \<and> x \<noteq> Str ''treatment'') (unique cells) in
           if invalid \<noteq> [] then Inr (append_result v (mk_result ''Variant Integrity'' False))
           else Inr (append_result v (mk_result ''Variant Integrity'' True))))"

text \<open>
  One term \<open>(observed - expected) ** 2 / expected\<close> of the chi-square statistic. With the
  default \<open>0\<close> for the observed count the arithmetic is Python's and a zero expectation
  raises; with a count from \<open>value_counts\<close> it is NumPy's.
\<close>

definition chi_term :: "nat option \<Rightarrow> real \<Rightarrow> error + npfloat" where
  "chi_term observed expected =
     (case observed of
        None \<Rightarrow> (case py_div ((0 - expected)\<^sup>2) expected of Inl e \<Rightarrow> Inl e | Inr t \<Rightarrow> Inr (Fin t))
      | Some c \<Rightarrow> Inr (np_div (Fin ((real c - expected)\<^sup>2)) (Fin expected)))"

definition chi_square_stat :: "real \<Rightarrow> cell list \<Rightarrow> nat \<Rightarrow> error + npfloat" where
  "chi_square_stat r cells total_n =
     (let expected_control = real total_n * r;
          expected_treatment = real total_n * (1 - r);
          observed_control = value_count cells ''control'';
          observed_treatment = value_count cells ''treatment'' in
      case chi_term observed_control expected_control of
        Inl e \<Rightarrow> Inl e
      | Inr t1 \<Rightarrow>
          (case chi_term observed_treatment expected_treatment of
             Inl e \<Rightarrow> Inl e
           | Inr t2 \<Rightarrow> Inr (np_add t1 t2)))"

definition critical_value :: real where
  "critical_value = 10.83"

text \<open>
  The SRM check, with the allocation ratio \<open>config.ALLOCATION_RATIO\<close> as \<open>r\<close>. The
  percentage deviation of the passing branch goes into the message only; its division
  has the denominator and the operand kinds of the first chi-square term, so it raises
  nothing that the statistic has not raised before.
\<close>

definition check_sample_ratio_mismatch :: "real \<Rightarrow> DataValidator \<Rightarrow> error + DataValidator" where
  "check_sample_ratio_mismatch r v =
     (case get_column (df v) ''variant'' of
        Inl e \<Rightarrow> Inl e
      | Inr cells \<Rightarrow>
          (case chi_square_stat r cells (length (rows (df v))) of
             Inl e \<Rightarrow> Inl e
           | Inr chi_square \<Rightarrow>
               (let has_srm = np_less (Fin critical_value) chi_square in
                if has_srm
                then Inr (append_result v (mk_result_sev ''Sample Ratio Mismatch (SRM)'' False ''error''))
                else Inr (append_result v (mk_result ''Sample Ratio Mismatch (SRM)'' True)))))"

text \<open>
  \<open>groupby('user_id')['variant'].nunique()\<close>: rows with a missing identifier are dropped,
  and missing variants are not counted. The result is the number of distinct variants of
  each identifier, in the order of first occurrence.
\<close>

definition variants_per_user :: "(cell \<times> cell) list \<Rightarrow> (cell \<times> nat) list" where
  "variants_per_user pairs =
     map (\<lambda>u. (u, length (remdups (filter (\<lambda>x. x \<noteq> Null)
                  (map snd (filter (\<lambda>p. fst p = u) pairs))))))
         (unique (filter (\<lambda>x. x \<noteq> Null) (map fst pairs)))"

definition check_contamination :: "DataValidator \<Rightarrow> error + DataValidator" where
  "check_contamination v =
     (case get_column (df v) ''user_id'' of
        Inl e \<Rightarrow> Inl e
      | Inr ids \<Rightarrow>
          (case get_column (df v) ''variant'' of
             Inl e \<Rightarrow> Inl e
           | Inr vs \<Rightarrow>
               (let user_variant_counts = variants_per_user (zip ids vs);
                    contaminated_users = filter (\<lambda>(u, k). k > 1) user_variant_counts in
                if length contaminated_users > 0
                then Inr (append_result v (mk_result ''Contamination Check'' False))
                else Inr (append_result v (mk_result ''Contamination Check'' True)))))"

text \<open>
  The percentage of eligible units, \<open>eligible_count / total * 100\<close>. The sum of a column of
  dtype \<open>bool\<close> is a NumPy integer and the division is NumPy's: \<open>nan\<close> on a frame without
  rows. The sum of a column of dtype \<open>object\<close> is a Python integer and the division is
  Python's: it raises on a frame without rows.
\<close>

definition eligible_percentage :: "bool \<Rightarrow> nat \<Rightarrow> nat \<Rightarrow> error + npfloat" where
  "eligible_percentage numpy_sum eligible_count total_n =
     (if numpy_sum
      then Inr (np_mul (np_div (Fin (real eligible_count)) (Fin (real total_n))) (Fin 100))
      else bind_err (py_div (real eligible_count) (real total_n)) (\<lambda>q. Inr (Fin (q * 100))))"

definition check_eligibility :: "DataValidator \<Rightarrow> error + DataValidator" where
  "check_eligibility v =
     (case get_column (df v) ''eligible'' of
        Inl e \<Rightarrow> Inl e
      | Inr cells \<Rightarrow>
          (let eligible_count = count_true cells;
               total_n = length (rows (df v)) in
           case eligible_percentage (''eligible'' \<in> set (bool_dtype (df v))) eligible_count total_n of
             Inl e \<Rightarrow> Inl e
           | Inr eligible_pct \<Rightarrow>
               if np_less eligible_pct (Fin 80)
               then Inr (append_result v (mk_result_sev ''Eligibility Check'' False ''warning''))
               else Inr (append_result v (mk_result ''Eligibility Check'' True))))"

definition ALLOCATION_RATIO :: real where
  "ALLOCATION_RATIO = 0.5"

definition validate :: "DataValidator \<Rightarrow> error + ValidationReport" where
  "validate v =
     bind_err (check_schema v) (\<lambda>v1.
     bind_err (check_nulls v1) (\<lambda>v2.
     bind_err (check_variants v2) (\<lambda>v3.
     bind_err (check_sample_ratio_mismatch ALLOCATION_RATIO v3) (\<lambda>v4.
     bind_err (check_contamination v4) (\<lambda>v5.
     bind_err (check_eligibility v5) (\<lambda>v6.
     Inr (results v6)))))))"

section \<open>Metrics (src/metrics/compute.py)\<close>

record MetricReport =
  metric_name :: string
  control_n :: int
  control_successes :: int
  control_rate :: real
  treatment_n :: int
  treatment_successes :: int
  treatment_rate :: real
  absolute_lift :: real
  relative_lift_pct :: real

text \<open>
  \<open>MetricComputer._compute_binary_metric\<close> on the computer's dataset \<open>self.df\<close>. The sum of
  a boolean column is the number of its true cells. Both divisions stand under their
  guards, as in the source.
\<close>

definition compute_binary_metric :: "dataframe \<Rightarrow> string \<Rightarrow> string \<Rightarrow> error + MetricReport" where
  "compute_binary_metric d name outcome_col =
     bind_err (get_column d ''variant'') (\<lambda>vs.
     bind_err (get_column d outcome_col) (\<lambda>os.
       let control = map snd (filter (\<lambda>p. fst p = Str ''control'') (zip vs os));
           treatment = map snd (filter (\<lambda>p. fst p = Str ''treatment'') (zip vs os));
           c_n = length control;
           c_successes = count_true control;
           t_n = length treatment;
           t_successes = count_true treatment in
       bind_err (if c_n > 0 then py_div (real c_successes) (real c_n) else Inr 0) (\<lambda>c_rate.
       bind_err (if t_n > 0 then py_div (real t_successes) (real t_n) else Inr 0) (\<lambda>t_rate.
         let lift = t_rate - c_rate in
         bind_err (if c_rate > 0 then bind_err (py_div lift c_rate) (\<lambda>q. Inr (q * 100)) else Inr 0)
           (\<lambda>rel_lift.
              Inr \<lparr>metric_name = name,
                   control_n = int c_n, control_successes = int c_successes, control_rate = c_rate,
                   treatment_n = int t_n, treatment_successes = int t_successes,
                   treatment_rate = t_rate,
                   absolute_lift = lift, relative_lift_pct = rel_lift\<rparr>)))))"

definition compute_ctr :: "dataframe \<Rightarrow> error + MetricReport" where
  "compute_ctr d = compute_binary_metric d ''CTR'' ''clicked''"

definition compute_cvr :: "dataframe \<Rightarrow> error + MetricReport" where
  "compute_cvr d = compute_binary_metric d ''CVR'' ''converted''"

section \<open>The standard normal distribution\<close>

text \<open>
  Modelled from the spec: \<open>scipy.stats.norm.cdf\<close> and \<open>scipy.stats.norm.ppf\<close>, library
  functions outside the repository. The specification names them: the standard normal
  CDF and the inverse normal quantile. The CDF is \<open>1/2 + (1/sqrt(2 pi))\<close> times the
  integral of \<open>exp(-t^2/2)\<close> from \<open>0\<close> to \<open>x\<close>, and that integral is the power series
  \<open>sum_k (-1)^k x^(2k+1) / (2^k k! (2k+1))\<close>. The quantile of \<open>q\<close> is the point where the
  CDF is \<open>q\<close>.
\<close>

definition gauss_coeff :: "nat \<Rightarrow> real" where
  "gauss_coeff k = (- 1 / 2) ^ k / (fact k * real (2 * k + 1))"

definition gauss_integral :: "real \<Rightarrow> real" where
  "gauss_integral x = x * (\<Sum>k. gauss_coeff k * (x\<^sup>2) ^ k)"

definition Phi :: "real \<Rightarrow> real" where
  "Phi x = 1 / 2 + gauss_integral x / sqrt (2 * pi)"

definition std_quantile :: "real \<Rightarrow> real" where
  "std_quantile q = (THE x. Phi x = q)"

text \<open>The first \<open>n\<close> terms of the series of the integral, for bounds on its values.\<close>

definition gauss_poly :: "nat \<Rightarrow> real \<Rightarrow> real" where
  "gauss_poly n x = (\<Sum>m<n. gauss_coeff m * x ^ (2 * m + 1))"

text \<open>\<open>norm.cdf\<close> on a NumPy float.\<close>

fun norm_cdf :: "npfloat \<Rightarrow> npfloat" where
  "norm_cdf (Fin x) = Fin (Phi x)"
| "norm_cdf PInf = Fin 1"
| "norm_cdf NInf = Fin 0"
| "norm_cdf NaN = NaN"

text \<open>
  \<open>norm.ppf\<close> on a Python float: \<open>-inf\<close> at \<open>0\<close>, \<open>inf\<close> at \<open>1\<close>, \<open>nan\<close> outside \<open>[0, 1]\<close>, and
  no exception.
\<close>

definition norm_ppf :: "real \<Rightarrow> npfloat" where
  "norm_ppf q =
     (if 0 < q \<and> q < 1 then Fin (std_quantile q)
      else if q = 0 then NInf
      else if q = 1 then PInf
      else NaN)"

section \<open>Inference (src/stats/inference.py)\<close>

text \<open>
  The fields of an \<open>InferenceReport\<close> that repeat a field of the \<open>MetricReport\<close> carry the
  prefix \<open>inf\<close>.
\<close>

record InferenceReport =
  inf_metric_name :: string
  inf_control_rate :: real
  inf_treatment_rate :: real
  inf_absolute_lift :: real
  inf_relative_lift_pct :: real
  ci_lower :: npfloat
  ci_upper :: npfloat
  p_value :: npfloat
  statistically_significant :: bool
  inf_confidence_level :: real

record InferenceEngine =
  confidence_level :: real
  alpha :: real

definition CONFIDENCE_LEVEL :: real where
  "CONFIDENCE_LEVEL = 0.95"

text \<open>
  \<open>InferenceEngine.__init__\<close>: \<open>confidence_level or config.CONFIDENCE_LEVEL\<close> takes the
  default for \<open>None\<close> and for \<open>0\<close>, the values that are false.
\<close>

definition InferenceEngine_init :: "real option \<Rightarrow> InferenceEngine" where
  "InferenceEngine_init c =
     (let cl = (case c of None \<Rightarrow> CONFIDENCE_LEVEL | Some x \<Rightarrow> if x = 0 then CONFIDENCE_LEVEL else x)
      in \<lparr>confidence_level = cl, alpha = 1 - cl\<rparr>)"

text \<open>
  The fields of a \<open>MetricReport\<close> have the Python types it declares: integers for counts
  and sizes, floats for rates. So a division by a size that is zero raises. (For a group
  with units \<open>MetricComputer\<close> gives the rate as a NumPy float, and no size is zero then;
  for an empty group it gives the rate as the integer \<open>0\<close>, and the division raises as
  well.)
\<close>

definition proportion_diff_ci ::
  "InferenceEngine \<Rightarrow> real \<Rightarrow> int \<Rightarrow> real \<Rightarrow> int \<Rightarrow> error + (npfloat \<times> npfloat)" where
  "proportion_diff_ci eng p1 n1 p2 n2 =
     (let diff = p2 - p1 in
      bind_err (py_div (p1 * (1 - p1)) (real_of_int n1)) (\<lambda>v1.
      bind_err (py_div (p2 * (1 - p2)) (real_of_int n2)) (\<lambda>v2.
        let se = np_sqrt (Fin (v1 + v2));
            z = norm_ppf (1 - alpha eng / 2);
            margin = np_mul z se;
            lower = np_sub (Fin diff) margin;
            upper = np_add (Fin diff) margin in
        Inr (lower, upper))))"

definition proportion_z_test :: "int \<Rightarrow> int \<Rightarrow> int \<Rightarrow> int \<Rightarrow> error + npfloat" where
  "proportion_z_test x1 n1 x2 n2 =
     bind_err (py_div (real_of_int x1) (real_of_int n1)) (\<lambda>p1.
     bind_err (py_div (real_of_int x2) (real_of_int n2)) (\<lambda>p2.
     bind_err (py_div (real_of_int (x1 + x2)) (real_of_int (n1 + n2))) (\<lambda>p_pooled.
     bind_err (py_div 1 (real_of_int n1)) (\<lambda>r1.
     bind_err (py_div 1 (real_of_int n2)) (\<lambda>r2.
       let se_null = np_sqrt (Fin (p_pooled * (1 - p_pooled) * (r1 + r2)));
           z_stat = np_div (Fin (p2 - p1)) se_null in
       Inr (np_mul (Fin 2) (np_sub (Fin 1) (norm_cdf (np_abs z_stat)))))))))"

definition analyze_metric :: "InferenceEngine \<Rightarrow> MetricReport \<Rightarrow> error + InferenceReport" where
  "analyze_metric eng m =
     (let n1 = control_n m; x1 = control_successes m; p1 = control_rate m;
          n2 = treatment_n m; x2 = treatment_successes m; p2 = treatment_rate m in
      bind_err (proportion_diff_ci eng p1 n1 p2 n2) (\<lambda>ci.
      bind_err (proportion_z_test x1 n1 x2 n2) (\<lambda>pv.
        let significant = np_less pv (Fin (alpha eng)) in
        Inr \<lparr>inf_metric_name = metric_name m,
             inf_control_rate = p1,
             inf_treatment_rate = p2,
             inf_absolute_lift = absolute_lift m,
             inf_relative_lift_pct = relative_lift_pct m,
             ci_lower = fst ci,
             ci_upper = snd ci,
             p_value = pv,
             statistically_significant = significant,
             inf_confidence_level = confidence_level eng\<rparr>)))"

text \<open>
  The baseline rate that a caller passes to \<open>compute_mde\<close> is a float of one of two
  kinds: a Python float, or a NumPy float (a subclass of \<open>float\<close>; the rate of a report of
  \<open>MetricComputer\<close>, which \<open>main\<close> passes). The sample size is a Python integer.
\<close>

datatype pyfloat = PyFloat real | NpFloat real

text \<open>
  A Python float divided by a Python integer: the integer is converted to a float first,
  which raises \<open>OverflowError\<close> when it is too large; then a zero divisor raises.
\<close>

definition float_div_int :: "real \<Rightarrow> int \<Rightarrow> error + real" where
  "float_div_int a n =
     (if 2 ^ 1024 - 2 ^ 970 \<le> \<bar>n\<bar> then Inl OverflowError
      else if n = 0 then Inl ZeroDivisionError
      else Inr (a / real_of_int n))"

text \<open>
  A NumPy float divided by a Python integer: the same conversion, and then NumPy's
  division, which gives \<open>inf\<close> or \<open>nan\<close> for a zero divisor.
\<close>

definition npfloat_div_int :: "real \<Rightarrow> int \<Rightarrow> error + npfloat" where
  "npfloat_div_int a n =
     (if 2 ^ 1024 - 2 ^ 970 \<le> \<bar>n\<bar> then Inl OverflowError
      else Inr (np_div (Fin a) (Fin (real_of_int n))))"

definition compute_mde :: "InferenceEngine \<Rightarrow> pyfloat \<Rightarrow> int \<Rightarrow> real \<Rightarrow> error + npfloat" where
  "compute_mde eng baseline_rate n_per_variant pw =
     (let z_alpha = norm_ppf (1 - alpha eng / 2);
          z_beta = norm_ppf pw in
      bind_err
        (case baseline_rate of
           PyFloat p \<Rightarrow> bind_err (float_div_int (2 * p * (1 - p)) n_per_variant) (\<lambda>v. Inr (Fin v))
         | NpFloat p \<Rightarrow> npfloat_div_int (2 * p * (1 - p)) n_per_variant)
        (\<lambda>v. Inr (np_mul (np_add z_alpha z_beta) (np_sqrt v))))"

section \<open>The formulas of the specification\<close>




section \<open>Example datasets\<close>

text \<open>A row of the declared schema, as a function of the column label.\<close>

definition unit_row ::
  "string \<Rightarrow> string \<Rightarrow> bool \<Rightarrow> bool \<Rightarrow> bool \<Rightarrow> string \<Rightarrow> string \<Rightarrow> (string \<Rightarrow> cell)" where
  "unit_row uid var e cl cv dev ctry c =
     (if c = ''user_id'' then Str uid
      else if c = ''experiment_id'' then Str ''homepage_redesign_v1''
      else if c = ''variant'' then Str var
      else if c = ''assigned_at'' then Str ''2024-10-01''
      else if c = ''first_exposed_at'' then Str ''2024-10-01''
      else if c = ''eligible'' then Bool e
      else if c = ''clicked'' then Bool cl
      else if c = ''converted'' then Bool cv
      else if c = ''device_category'' then Str dev
      else if c = ''country'' then Str ctry
      else Null)"

text \<open>Two units, one in each variant, the first eligible and the second not.\<close>

definition small_rows :: "(string \<Rightarrow> cell) list" where
  "small_rows = [unit_row ''user_0'' ''control'' True True False ''mobile'' ''US'',
                 unit_row ''user_1'' ''treatment'' False False False ''desktop'' ''IN'']"

definition small_df :: dataframe where
  "small_df = \<lparr>columns = required_cols, rows = small_rows,
     bool_dtype = [''eligible'', ''clicked'', ''converted'']\<rparr>"

text \<open>The same units after \<open>df.drop(columns=['clicked'])\<close>, as the test of the schema check builds it.\<close>

definition missing_clicked_df :: dataframe where
  "missing_clicked_df =
     \<lparr>columns = filter (\<lambda>c. c \<noteq> ''clicked'') required_cols, rows = small_rows,
      bool_dtype = [''eligible'', ''converted'']\<rparr>"

text \<open>
  A dataset with every required column and no row, as \<open>pd.DataFrame(columns=...)\<close> builds
  it: every column has the dtype \<open>object\<close>.
\<close>

definition empty_df :: dataframe where
  "empty_df = \<lparr>columns = required_cols, rows = [], bool_dtype = []\<rparr>"

text \<open>\<open>a\<close> control units followed by \<open>b\<close> treatment units.\<close>

definition split_df :: "nat \<Rightarrow> nat \<Rightarrow> dataframe" where
  "split_df a b = \<lparr>columns = required_cols,
     rows = replicate a (unit_row ''u'' ''control'' True False False ''mobile'' ''US'')
          @ replicate b (unit_row ''u'' ''treatment'' True False False ''mobile'' ''US''),
     bool_dtype = [''eligible'', ''clicked'', ''converted'']\<rparr>"

text \<open>
  The report of a metric on a dataset with no control unit and five treatment units, one
  of them a success, as \<open>MetricComputer\<close> gives it.
\<close>

definition no_control_report :: MetricReport where
  "no_control_report = \<lparr>metric_name = ''CVR'',
     control_n = 0, control_successes = 0, control_rate = 0,
     treatment_n = 5, treatment_successes = 1, treatment_rate = 1 / 5,
     absolute_lift = 1 / 5, relative_lift_pct = 0\<rparr>"

text \<open>The report of a metric on five control and five treatment units with no success at all.\<close>

definition no_success_report :: MetricReport where
  "no_success_report = \<lparr>metric_name = ''CVR'',
     control_n = 5, control_successes = 0, control_rate = 0,
     treatment_n = 5, treatment_successes = 0, treatment_rate = 0,
     absolute_lift = 0, relative_lift_pct = 0\<rparr>"




section \<open>Validation: the overall verdict\<close>

lemma report_passed_iff:
  "report_passed rs = (\<forall>r\<in>set rs. severity r = ''error'' \<longrightarrow> passed r)"
  by (auto simp: report_passed_def list_all_iff)

lemma report_passed_drop_warning:
  "severity w = ''warning'' \<Longrightarrow> report_passed (xs @ w # ys) = report_passed (xs @ ys)"
  by (simp add: report_passed_def)

lemma check_eligibility_half:
  assumes "get_column (df v) ''eligible'' = Inr cells"
    and "0 < length (rows (df v))"
    and "2 * count_true cells = length (rows (df v))"
  shows "check_eligibility v =
     Inr (append_result v \<lparr>check_name = ''Eligibility Check'', passed = False, severity = ''warning''\<rparr>)"
proof -
  have pos: "0 < count_true cells"
    using assms(2,3) by linarith
  have h: "real (length (rows (df v))) = 2 * real (count_true cells)"
    using assms(3) by (metis of_nat_mult of_nat_numeral)
  have "eligible_percentage b (count_true cells) (length (rows (df v))) = Inr (Fin 50)" for b
    using pos by (simp add: eligible_percentage_def bind_err_def py_div_def h)
  then show ?thesis
    using assms(1) by (simp add: check_eligibility_def Let_def mk_result_sev_def)
qed

text \<open>
  C7. The overall verdict of a report is the conjunction of the passed flags of its
  error-severity results. A result of warning severity, wherever it stands in the report,
  does not change the verdict. The eligibility check on a dataset with half of its units
  eligible appends such a result: failed, of warning severity, and the verdict stays what
  it was.
\<close>

theorem report_passed_error_severity_only:
  "report_passed rs = (\<forall>r\<in>set rs. severity r = ''error'' \<longrightarrow> passed r)
   \<and> (severity w = ''warning'' \<longrightarrow> report_passed (xs @ w # ys) = report_passed (xs @ ys))
   \<and> (get_column (df v) ''eligible'' = Inr cells \<and> 0 < length (rows (df v))
        \<and> 2 * count_true cells = length (rows (df v))
      \<longrightarrow> check_eligibility v = Inr (v\<lparr>results := results v @
              [\<lparr>check_name = ''Eligibility Check'', passed = False, severity = ''warning''\<rparr>]\<rparr>)
          \<and> report_passed (results v @
              [\<lparr>check_name = ''Eligibility Check'', passed = False, severity = ''warning''\<rparr>])
            = report_passed (results v))"
proof -
  let ?w = "\<lparr>check_name = ''Eligibility Check'', passed = False, severity = ''warning''\<rparr>"
  have a: "report_passed rs = (\<forall>r\<in>set rs. severity r = ''error'' \<longrightarrow> passed r)"
    by (rule report_passed_iff)
  have b: "severity w = ''warning'' \<longrightarrow> report_passed (xs @ w # ys) = report_passed (xs @ ys)"
    by (simp add: report_passed_drop_warning)
  have "report_passed (results v @ ?w # []) = report_passed (results v @ [])"
    by (rule report_passed_drop_warning) simp
  then have c2: "report_passed (results v @ [?w]) = report_passed (results v)"
    by simp
  have c1: "check_eligibility v = Inr (v\<lparr>results := results v @ [?w]\<rparr>)"
    if "get_column (df v) ''eligible'' = Inr cells \<and> 0 < length (rows (df v))
        \<and> 2 * count_true cells = length (rows (df v))"
    using check_eligibility_half[of v cells] that by (simp add: append_result_def)
  show ?thesis
    using a b c1 c2 by blast
qed

lemma small_df_eligible:
  "get_column (df \<lparr>df = small_df, results = rs\<rparr>) ''eligible'' = Inr [Bool True, Bool False]"
  by (simp add: get_column_def small_df_def small_rows_def required_cols_def unit_row_def)

theorem report_passed_error_severity_only_witness:
  "report_passed [mk_result ''Schema Check'' True, mk_result_sev ''Eligibility Check'' False ''warning'']
   \<and> severity (mk_result_sev ''Eligibility Check'' False ''warning'') = ''warning''
   \<and> report_passed ([mk_result ''Schema Check'' True] @ mk_result_sev ''Eligibility Check'' False ''warning'' # [])
       = report_passed ([mk_result ''Schema Check'' True] @ [])
   \<and> get_column (df \<lparr>df = small_df, results = [mk_result ''Schema Check'' True]\<rparr>) ''eligible''
       = Inr [Bool True, Bool False]
   \<and> 2 * count_true [Bool True, Bool False] = length (rows small_df)
   \<and> check_eligibility \<lparr>df = small_df, results = [mk_result ''Schema Check'' True]\<rparr>
       = Inr \<lparr>df = small_df, results = [mk_result ''Schema Check'' True,
            \<lparr>check_name = ''Eligibility Check'', passed = False, severity = ''warning''\<rparr>]\<rparr>
   \<and> report_passed [mk_result ''Schema Check'' True,
            \<lparr>check_name = ''Eligibility Check'', passed = False, severity = ''warning''\<rparr>]"
proof -
  let ?a = "mk_result ''Schema Check'' True"
  let ?w = "mk_result_sev ''Eligibility Check'' False ''warning''"
  let ?v = "\<lparr>df = small_df, results = [?a]\<rparr>"
  have c: "get_column (df ?v) ''eligible'' = Inr [Bool True, Bool False]"
    by (rule small_df_eligible)
  have n: "length (rows small_df) = 2"
    by (simp add: small_df_def small_rows_def)
  have k: "count_true [Bool True, Bool False] = 1"
    by (simp add: count_true_def)
  show ?thesis
    using report_passed_error_severity_only
      [of "[?a, ?w]" ?w "[?a]" "[]" ?v "[Bool True, Bool False]"] c
    by (auto simp: n k mk_result_def mk_result_sev_def)
qed

section \<open>Validation: the run of the six checks\<close>

lemma appends_if:
  assumes "check_name r1 = n" and "check_name r2 = n"
  shows "\<exists>r. (if b then Inr (append_result v r1) else Inr (append_result v r2))
             = (Inr (append_result v r) :: error + DataValidator) \<and> check_name r = n"
  using assms by (cases b) auto

lemma check_schema_appends:
  "\<exists>r. check_schema v = Inr (append_result v r) \<and> check_name r = ''Schema Check''"
  unfolding check_schema_def Let_def
  by (rule appends_if) (simp_all add: mk_result_def)

lemma check_nulls_appends:
  assumes "set required_non_null \<subseteq> set (columns (df v))"
  shows "\<exists>r. check_nulls v = Inr (append_result v r) \<and> check_name r = ''Null Check''"
proof -
  have "get_columns (df v) required_non_null
      = Inr (map (\<lambda>c. (c, map (\<lambda>r. r c) (rows (df v)))) required_non_null)"
    using assms by (auto simp: get_columns_def list_all_iff)
  then show ?thesis
    unfolding check_nulls_def Let_def
    by (simp split del: if_split) (rule appends_if; simp add: mk_result_def)
qed

lemma check_variants_appends:
  assumes "''variant'' \<in> set (columns (df v))"
  shows "\<exists>r. check_variants v = Inr (append_result v r) \<and> check_name r = ''Variant Integrity''"
  using assms unfolding check_variants_def Let_def get_column_def
  by (simp split del: if_split) (rule appends_if; simp add: mk_result_def)

lemma chi_square_stat_defined:
  assumes "0 < n" and "0 < r" and "r < 1"
  shows "chi_square_stat r cells n =
     Inr (Fin ((real (length (filter (\<lambda>x. x = Str ''control'') cells)) - real n * r)\<^sup>2 / (real n * r)
             + (real (length (filter (\<lambda>x. x = Str ''treatment'') cells)) - real n * (1 - r))\<^sup>2
                 / (real n * (1 - r))))"
  using assms by (simp add: chi_square_stat_def chi_term_def value_count_def py_div_def Let_def)

lemma check_srm_appends:
  assumes "''variant'' \<in> set (columns (df v))" and "rows (df v) \<noteq> []"
  shows "\<exists>r. check_sample_ratio_mismatch ALLOCATION_RATIO v = Inr (append_result v r)
           \<and> check_name r = ''Sample Ratio Mismatch (SRM)''"
proof -
  have "0 < length (rows (df v))"
    using assms(2) by simp
  then have "\<exists>c. chi_square_stat ALLOCATION_RATIO (map (\<lambda>r. r ''variant'') (rows (df v)))
                 (length (rows (df v))) = Inr c"
    by (simp add: chi_square_stat_defined ALLOCATION_RATIO_def)
  then obtain c where "chi_square_stat ALLOCATION_RATIO (map (\<lambda>r. r ''variant'') (rows (df v)))
                 (length (rows (df v))) = Inr c" ..
  then show ?thesis
    using assms(1) unfolding check_sample_ratio_mismatch_def Let_def get_column_def
    by (simp split del: if_split) (rule appends_if; simp add: mk_result_def mk_result_sev_def)
qed

lemma check_contamination_appends:
  assumes "''user_id'' \<in> set (columns (df v))" and "''variant'' \<in> set (columns (df v))"
  shows "\<exists>r. check_contamination v = Inr (append_result v r) \<and> check_name r = ''Contamination Check''"
  using assms unfolding check_contamination_def Let_def get_column_def
  by (simp split del: if_split) (rule appends_if; simp add: mk_result_def)

lemma check_eligibility_appends:
  assumes "''eligible'' \<in> set (columns (df v))" and "rows (df v) \<noteq> []"
  shows "\<exists>r. check_eligibility v = Inr (append_result v r) \<and> check_name r = ''Eligibility Check''"
proof -
  have "\<exists>c. eligible_percentage (''eligible'' \<in> set (bool_dtype (df v)))
          (count_true (map (\<lambda>r. r ''eligible'') (rows (df v)))) (length (rows (df v))) = Inr c"
    using assms(2) by (simp add: eligible_percentage_def bind_err_def py_div_def)
  then obtain c where "eligible_percentage (''eligible'' \<in> set (bool_dtype (df v)))
          (count_true (map (\<lambda>r. r ''eligible'') (rows (df v)))) (length (rows (df v))) = Inr c" ..
  then show ?thesis
    using assms(1) unfolding check_eligibility_def Let_def get_column_def
    by (simp split del: if_split) (rule appends_if; simp add: mk_result_def mk_result_sev_def)
qed

lemma df_append_result: "df (append_result v r) = df v"
  by (simp add: append_result_def)

lemma results_append_result: "results (append_result v r) = results v @ [r]"
  by (simp add: append_result_def)

text \<open>
  On a dataset that has the columns the checks read and at least one row, a run returns
  the six results in the order of the checks, whatever each check found.
\<close>

lemma validate_six_results:
  assumes cols: "set required_non_null \<subseteq> set (columns d)" and rws: "rows d \<noteq> []"
  shows "\<exists>rs. validate (DataValidator_init d) = Inr rs
     \<and> map check_name rs = [''Schema Check'', ''Null Check'', ''Variant Integrity'',
          ''Sample Ratio Mismatch (SRM)'', ''Contamination Check'', ''Eligibility Check'']"
proof -
  let ?v0 = "DataValidator_init d"
  have d0: "df ?v0 = d" and r0: "results ?v0 = []"
    by (simp_all add: DataValidator_init_def)
  have var: "''variant'' \<in> set (columns d)" and uid: "''user_id'' \<in> set (columns d)"
    and eli: "''eligible'' \<in> set (columns d)"
    using cols by (auto simp: required_non_null_def)
  obtain r1 where s1: "check_schema ?v0 = Inr (append_result ?v0 r1)" and n1: "check_name r1 = ''Schema Check''"
    using check_schema_appends by blast
  let ?v1 = "append_result ?v0 r1"
  have d1: "df ?v1 = d" by (simp add: df_append_result d0)
  obtain r2 where s2: "check_nulls ?v1 = Inr (append_result ?v1 r2)" and n2: "check_name r2 = ''Null Check''"
    using check_nulls_appends[of ?v1] cols d1 by auto
  let ?v2 = "append_result ?v1 r2"
  have d2: "df ?v2 = d" by (simp add: df_append_result d0)
  obtain r3 where s3: "check_variants ?v2 = Inr (append_result ?v2 r3)" and n3: "check_name r3 = ''Variant Integrity''"
    using check_variants_appends[of ?v2] var d2 by auto
  let ?v3 = "append_result ?v2 r3"
  have d3: "df ?v3 = d" by (simp add: df_append_result d0)
  obtain r4 where s4: "check_sample_ratio_mismatch ALLOCATION_RATIO ?v3 = Inr (append_result ?v3 r4)"
    and n4: "check_name r4 = ''Sample Ratio Mismatch (SRM)''"
    using check_srm_appends[of ?v3] var rws d3 by auto
  let ?v4 = "append_result ?v3 r4"
  have d4: "df ?v4 = d" by (simp add: df_append_result d0)
  obtain r5 where s5: "check_contamination ?v4 = Inr (append_result ?v4 r5)"
    and n5: "check_name r5 = ''Contamination Check''"
    using check_contamination_appends[of ?v4] var uid d4 by auto
  let ?v5 = "append_result ?v4 r5"
  have d5: "df ?v5 = d" by (simp add: df_append_result d0)
  obtain r6 where s6: "check_eligibility ?v5 = Inr (append_result ?v5 r6)"
    and n6: "check_name r6 = ''Eligibility Check''"
    using check_eligibility_appends[of ?v5] eli rws d5 by auto
  have "validate ?v0 = Inr (results (append_result ?v5 r6))"
    by (simp add: validate_def bind_err_def s1 s2 s3 s4 s5 s6)
  then show ?thesis
    by (simp add: results_append_result r0 n1 n2 n3 n4 n5 n6)
qed

text \<open>
  C6. A run does not always return a report. On the dataset of the schema test, which
  lacks the column \<open>clicked\<close>, the schema check records its failure and the null check then
  raises \<open>KeyError\<close>, so the run ends with the exception and no report. On a dataset with
  every column and no row the SRM check raises \<open>ZeroDivisionError\<close>.
\<close>

theorem validate_raises:
  "validate (DataValidator_init missing_clicked_df) = Inl KeyError
   \<and> validate (DataValidator_init empty_df) = Inl ZeroDivisionError"
proof
  show "validate (DataValidator_init missing_clicked_df) = Inl KeyError"
    by (simp add: validate_def bind_err_def check_schema_def check_nulls_def get_columns_def
        DataValidator_init_def missing_clicked_df_def required_cols_def required_non_null_def
        append_result_def)
next
  show "validate (DataValidator_init empty_df) = Inl ZeroDivisionError"
    by (simp add: validate_def bind_err_def check_schema_def check_nulls_def get_columns_def
        get_column_def check_variants_def check_sample_ratio_mismatch_def chi_square_stat_def
        chi_term_def value_count_def py_div_def DataValidator_init_def empty_df_def
        required_cols_def required_non_null_def append_result_def mk_result_def unique_def)
qed

section \<open>Validation: sample ratio mismatch\<close>

text \<open>
  C3 (amended). For a dataset with \<open>N > 0\<close> rows and an allocation ratio \<open>r\<close> strictly
  between 0 and 1, the SRM check takes \<open>N r\<close> and \<open>N (1 - r)\<close> as the expected counts,
  sums \<open>(observed - expected)^2 / expected\<close> over control and treatment, and appends one
  result of error severity that has failed exactly when the sum exceeds 10.83. With the
  configured ratio 0.5, a dataset of 10000 rows fails with 9000 control and 1000
  treatment rows and passes with 5020 and 4980.
\<close>

theorem srm_check_chi_square:
  assumes "get_column (df v) ''variant'' = Inr cells"
    and "0 < length (rows (df v))" and "0 < r" and "r < 1"
  shows "check_sample_ratio_mismatch r v =
     Inr (append_result v
       \<lparr>check_name = ''Sample Ratio Mismatch (SRM)'',
        passed = \<not> (10.83 <
           (real (length (filter (\<lambda>x. x = Str ''control'') cells)) - real (length (rows (df v))) * r)\<^sup>2
              / (real (length (rows (df v))) * r)
         + (real (length (filter (\<lambda>x. x = Str ''treatment'') cells))
              - real (length (rows (df v))) * (1 - r))\<^sup>2
              / (real (length (rows (df v))) * (1 - r))),
        severity = ''error''\<rparr>)
   \<and> (length (rows (df v)) = 10000
        \<and> length (filter (\<lambda>x. x = Str ''control'') cells) = 9000
        \<and> length (filter (\<lambda>x. x = Str ''treatment'') cells) = 1000
      \<longrightarrow> check_sample_ratio_mismatch ALLOCATION_RATIO v =
            Inr (append_result v
              \<lparr>check_name = ''Sample Ratio Mismatch (SRM)'', passed = False, severity = ''error''\<rparr>))
   \<and> (length (rows (df v)) = 10000
        \<and> length (filter (\<lambda>x. x = Str ''control'') cells) = 5020
        \<and> length (filter (\<lambda>x. x = Str ''treatment'') cells) = 4980
      \<longrightarrow> check_sample_ratio_mismatch ALLOCATION_RATIO v =
            Inr (append_result v
              \<lparr>check_name = ''Sample Ratio Mismatch (SRM)'', passed = True, severity = ''error''\<rparr>))"
proof -
  have gen: "check_sample_ratio_mismatch q v =
     Inr (append_result v
       \<lparr>check_name = ''Sample Ratio Mismatch (SRM)'',
        passed = \<not> (10.83 <
           (real (length (filter (\<lambda>x. x = Str ''control'') cells)) - real (length (rows (df v))) * q)\<^sup>2
              / (real (length (rows (df v))) * q)
         + (real (length (filter (\<lambda>x. x = Str ''treatment'') cells))
              - real (length (rows (df v))) * (1 - q))\<^sup>2
              / (real (length (rows (df v))) * (1 - q))),
        severity = ''error''\<rparr>)" if "0 < q" "q < 1" for q
    using assms(1,2) that
    by (simp add: check_sample_ratio_mismatch_def chi_square_stat_defined critical_value_def
        Let_def mk_result_def mk_result_sev_def)
  have half: "0 < ALLOCATION_RATIO" "ALLOCATION_RATIO < 1"
    by (simp_all add: ALLOCATION_RATIO_def)
  show ?thesis
    using gen[OF assms(3,4)] gen[OF half]
    by (simp add: ALLOCATION_RATIO_def power2_eq_square)
qed

lemma split_df_variant:
  "get_column (df (DataValidator_init (split_df a b))) ''variant''
     = Inr (replicate a (Str ''control'') @ replicate b (Str ''treatment''))"
  by (simp add: get_column_def split_df_def required_cols_def unit_row_def DataValidator_init_def)

lemma split_df_length: "length (rows (df (DataValidator_init (split_df a b)))) = a + b"
  by (simp add: split_df_def DataValidator_init_def)

theorem srm_check_chi_square_witness:
  "check_sample_ratio_mismatch ALLOCATION_RATIO (DataValidator_init (split_df 9000 1000)) =
     Inr (append_result (DataValidator_init (split_df 9000 1000))
       \<lparr>check_name = ''Sample Ratio Mismatch (SRM)'', passed = False, severity = ''error''\<rparr>)
   \<and> check_sample_ratio_mismatch ALLOCATION_RATIO (DataValidator_init (split_df 5020 4980)) =
     Inr (append_result (DataValidator_init (split_df 5020 4980))
       \<lparr>check_name = ''Sample Ratio Mismatch (SRM)'', passed = True, severity = ''error''\<rparr>)"
proof -
  have half: "0 < ALLOCATION_RATIO" "ALLOCATION_RATIO < 1"
    by (simp_all add: ALLOCATION_RATIO_def)
  have a: "check_sample_ratio_mismatch ALLOCATION_RATIO (DataValidator_init (split_df 9000 1000)) =
     Inr (append_result (DataValidator_init (split_df 9000 1000))
       \<lparr>check_name = ''Sample Ratio Mismatch (SRM)'', passed = False, severity = ''error''\<rparr>)"
    using srm_check_chi_square[OF split_df_variant _ half, of 9000 1000, THEN conjunct2, THEN conjunct1]
    by (simp add: split_df_length)
  have b: "check_sample_ratio_mismatch ALLOCATION_RATIO (DataValidator_init (split_df 5020 4980)) =
     Inr (append_result (DataValidator_init (split_df 5020 4980))
       \<lparr>check_name = ''Sample Ratio Mismatch (SRM)'', passed = True, severity = ''error''\<rparr>)"
    using srm_check_chi_square[OF split_df_variant _ half, of 5020 4980, THEN conjunct2, THEN conjunct2]
    by (simp add: split_df_length)
  show ?thesis
    using a b by simp
qed

text \<open>On the dataset with no row the SRM check raises and appends nothing.\<close>

theorem srm_check_empty_dataset_raises:
  "check_sample_ratio_mismatch ALLOCATION_RATIO (DataValidator_init empty_df) = Inl ZeroDivisionError"
  by (simp add: check_sample_ratio_mismatch_def get_column_def chi_square_stat_def chi_term_def
      value_count_def py_div_def DataValidator_init_def empty_df_def required_cols_def)

section \<open>Metrics: the aggregation is total\<close>

lemma count_true_le_length: "count_true xs \<le> length xs"
  by (simp add: count_true_def)

lemma count_true_map_snd:
  "count_true (map snd (filter (\<lambda>p. fst p = a) ps))
     = length (filter (\<lambda>p. fst p = a \<and> snd p = Bool True) ps)"
  by (induction ps) (auto simp: count_true_def)

lemma zip_map_same: "zip (map f xs) (map g xs) = map (\<lambda>x. (f x, g x)) xs"
  by (induction xs) simp_all

lemma rate_in_unit_interval:
  assumes "k \<le> n" and "0 < n"
  shows "0 \<le> real k / real n \<and> real k / real n \<le> 1"
  using assms by simp

text \<open>
  C2. On every dataset that has the variant column and the outcome column, the
  aggregation returns a report and raises nothing. In the report the size of a group is
  the number of its rows and its successes the number of its rows with a true outcome;
  the rate of a group is successes over size for a group with rows and 0 for a group
  without; both rates lie between 0 and 1; the absolute lift is the treatment rate minus
  the control rate; the relative lift is the absolute lift over the control rate times
  100 for a positive control rate and 0 otherwise.
\<close>

theorem compute_binary_metric_total:
  assumes "''variant'' \<in> set (columns d)" and "outcome_col \<in> set (columns d)"
  shows "\<exists>m. compute_binary_metric d name outcome_col = Inr m
     \<and> control_n m = int (length (filter (\<lambda>r. r ''variant'' = Str ''control'') (rows d)))
     \<and> control_successes m = int (length (filter
           (\<lambda>r. r ''variant'' = Str ''control'' \<and> r outcome_col = Bool True) (rows d)))
     \<and> treatment_n m = int (length (filter (\<lambda>r. r ''variant'' = Str ''treatment'') (rows d)))
     \<and> treatment_successes m = int (length (filter
           (\<lambda>r. r ''variant'' = Str ''treatment'' \<and> r outcome_col = Bool True) (rows d)))
     \<and> control_rate m = (if 0 < control_n m
           then real_of_int (control_successes m) / real_of_int (control_n m) else 0)
     \<and> treatment_rate m = (if 0 < treatment_n m
           then real_of_int (treatment_successes m) / real_of_int (treatment_n m) else 0)
     \<and> 0 \<le> control_rate m \<and> control_rate m \<le> 1
     \<and> 0 \<le> treatment_rate m \<and> treatment_rate m \<le> 1
     \<and> absolute_lift m = treatment_rate m - control_rate m
     \<and> relative_lift_pct m = (if 0 < control_rate m
           then absolute_lift m / control_rate m * 100 else 0)"
proof -
  define vs where "vs = map (\<lambda>r. r ''variant'') (rows d)"
  define os where "os = map (\<lambda>r. r outcome_col) (rows d)"
  define cs where "cs = map snd (filter (\<lambda>p. fst p = Str ''control'') (zip vs os))"
  define ts where "ts = map snd (filter (\<lambda>p. fst p = Str ''treatment'') (zip vs os))"
  define c_rate where "c_rate = (if 0 < length cs then real (count_true cs) / real (length cs) else 0)"
  define t_rate where "t_rate = (if 0 < length ts then real (count_true ts) / real (length ts) else 0)"
  define m where "m = \<lparr>metric_name = name,
      control_n = int (length cs), control_successes = int (count_true cs), control_rate = c_rate,
      treatment_n = int (length ts), treatment_successes = int (count_true ts),
      treatment_rate = t_rate,
      absolute_lift = t_rate - c_rate,
      relative_lift_pct = (if 0 < c_rate then (t_rate - c_rate) / c_rate * 100 else 0)\<rparr>"
  have gv: "get_column d ''variant'' = Inr vs" and go: "get_column d outcome_col = Inr os"
    using assms by (simp_all add: get_column_def vs_def os_def)
  have zip_eq: "zip vs os = map (\<lambda>r. (r ''variant'', r outcome_col)) (rows d)"
    by (simp add: vs_def os_def zip_map_same)
  have len: "length (filter (\<lambda>p. fst p = a) (zip vs os)) = length (filter (\<lambda>r. r ''variant'' = a) (rows d))"
    for a
    by (simp add: zip_eq filter_map comp_def)
  have suc: "length (filter (\<lambda>p. fst p = a \<and> snd p = Bool True) (zip vs os))
      = length (filter (\<lambda>r. r ''variant'' = a \<and> r outcome_col = Bool True) (rows d))" for a
    by (simp add: zip_eq filter_map comp_def)
  have run: "compute_binary_metric d name outcome_col = Inr m"
    by (simp add: compute_binary_metric_def bind_err_def gv go py_div_def Let_def m_def
        c_rate_def t_rate_def cs_def ts_def)
  have c01: "0 \<le> c_rate \<and> c_rate \<le> 1"
    using rate_in_unit_interval[OF count_true_le_length, of cs] by (simp add: c_rate_def)
  have t01: "0 \<le> t_rate \<and> t_rate \<le> 1"
    using rate_in_unit_interval[OF count_true_le_length, of ts] by (simp add: t_rate_def)
  have fields: "control_n m = int (length (filter (\<lambda>r. r ''variant'' = Str ''control'') (rows d)))"
    "control_successes m = int (length (filter
           (\<lambda>r. r ''variant'' = Str ''control'' \<and> r outcome_col = Bool True) (rows d)))"
    "treatment_n m = int (length (filter (\<lambda>r. r ''variant'' = Str ''treatment'') (rows d)))"
    "treatment_successes m = int (length (filter
           (\<lambda>r. r ''variant'' = Str ''treatment'' \<and> r outcome_col = Bool True) (rows d)))"
    by (simp_all add: m_def cs_def ts_def count_true_map_snd len suc)
  have rates: "control_rate m = (if 0 < control_n m
           then real_of_int (control_successes m) / real_of_int (control_n m) else 0)"
    "treatment_rate m = (if 0 < treatment_n m
           then real_of_int (treatment_successes m) / real_of_int (treatment_n m) else 0)"
    by (simp_all add: m_def c_rate_def t_rate_def)
  have lifts: "absolute_lift m = treatment_rate m - control_rate m"
    "relative_lift_pct m = (if 0 < control_rate m
           then absolute_lift m / control_rate m * 100 else 0)"
    by (simp_all add: m_def)
  have bounds: "0 \<le> control_rate m" "control_rate m \<le> 1" "0 \<le> treatment_rate m" "treatment_rate m \<le> 1"
    using c01 t01 by (simp_all add: m_def)
  show ?thesis
    using run fields rates lifts bounds by blast
qed

text \<open>
  The example dataset has one control unit, which clicked, and one treatment unit, which
  did not.
\<close>

theorem compute_binary_metric_total_witness:
  "''variant'' \<in> set (columns small_df) \<and> ''clicked'' \<in> set (columns small_df)
   \<and> compute_binary_metric small_df ''CTR'' ''clicked'' =
       Inr \<lparr>metric_name = ''CTR'',
            control_n = 1, control_successes = 1, control_rate = 1,
            treatment_n = 1, treatment_successes = 0, treatment_rate = 0,
            absolute_lift = - 1, relative_lift_pct = - 100\<rparr>"
proof -
  have c: "''variant'' \<in> set (columns small_df)" "''clicked'' \<in> set (columns small_df)"
    by (simp_all add: small_df_def required_cols_def)
  have r: "rows small_df = small_rows"
    by (simp add: small_df_def)
  obtain m where run: "compute_binary_metric small_df ''CTR'' ''clicked'' = Inr m"
    using compute_binary_metric_total[OF c, of "''CTR''"] by blast
  have "compute_binary_metric small_df ''CTR'' ''clicked'' =
       Inr \<lparr>metric_name = ''CTR'',
            control_n = 1, control_successes = 1, control_rate = 1,
            treatment_n = 1, treatment_successes = 0, treatment_rate = 0,
            absolute_lift = - 1, relative_lift_pct = - 100\<rparr>"
    by (simp add: compute_binary_metric_def bind_err_def get_column_def py_div_def Let_def
        small_df_def small_rows_def required_cols_def unit_row_def count_true_def)
  then show ?thesis
    using c run by simp
qed

section \<open>Inference: empty groups and groups without variance\<close>

lemma np_mul_NaN_right: "np_mul a NaN = NaN"
  by (cases a) simp_all

lemma np_add_NaN_right: "np_add a NaN = NaN"
  by (cases a) simp_all

text \<open>
  C4. For a report whose control group or treatment group has size zero the analysis
  raises \<open>ZeroDivisionError\<close> and returns no report: the division by the size in the
  standard error of the interval is the first to fail.
\<close>

theorem analyze_metric_empty_group_raises:
  assumes "control_n m = 0 \<or> treatment_n m = 0"
  shows "analyze_metric eng m = Inl ZeroDivisionError"
proof (cases "control_n m = 0")
  case True
  then show ?thesis
    by (simp add: analyze_metric_def proportion_diff_ci_def bind_err_def py_div_def Let_def)
next
  case False
  with assms have "treatment_n m = 0"
    by simp
  then show ?thesis
    by (simp add: analyze_metric_def proportion_diff_ci_def bind_err_def py_div_def Let_def)
qed

theorem analyze_metric_empty_group_raises_witness:
  "control_n no_control_report = 0
   \<and> analyze_metric (InferenceEngine_init None) no_control_report = Inl ZeroDivisionError"
  using analyze_metric_empty_group_raises[of no_control_report "InferenceEngine_init None"]
  by (simp add: no_control_report_def)

text \<open>
  C5. The p-value is not always a number between 0 and 1. With no success in either
  group (or only successes) the pooled standard error is \<open>0.0\<close>, the z statistic is the
  NumPy quotient \<open>0.0 / 0.0\<close>, which is \<open>nan\<close>, and the p-value is \<open>nan\<close>; the analysis
  returns it in its report with the significance flag false.
\<close>

theorem proportion_z_test_nan:
  "proportion_z_test 0 5 0 5 = Inr NaN
   \<and> proportion_z_test 5 5 5 5 = Inr NaN
   \<and> (\<exists>r. analyze_metric (InferenceEngine_init None) no_success_report = Inr r
         \<and> p_value r = NaN \<and> \<not> statistically_significant r)"
proof -
  have a: "proportion_z_test 0 5 0 5 = Inr NaN"
    by (simp add: proportion_z_test_def bind_err_def py_div_def Let_def np_sub_def)
  have b: "proportion_z_test 5 5 5 5 = Inr NaN"
    by (simp add: proportion_z_test_def bind_err_def py_div_def Let_def np_sub_def)
  have c: "\<exists>ci. proportion_diff_ci (InferenceEngine_init None) 0 5 0 5 = Inr ci"
    by (simp add: proportion_diff_ci_def bind_err_def py_div_def Let_def)
  then obtain ci where ci: "proportion_diff_ci (InferenceEngine_init None) 0 5 0 5 = Inr ci" ..
  have "\<exists>r. analyze_metric (InferenceEngine_init None) no_success_report = Inr r
         \<and> p_value r = NaN \<and> \<not> statistically_significant r"
    by (simp add: analyze_metric_def no_success_report_def Let_def ci a bind_err_def)
  with a b show ?thesis
    by simp
qed

section \<open>The standard normal distribution: derivative, monotonicity, values\<close>

text \<open>
  The series of the integral converges everywhere, and the integral has the derivative
  \<open>exp (- x^2 / 2)\<close>. So \<open>Phi\<close> is continuous and strictly increasing, with \<open>Phi 0 = 1/2\<close> and
  \<open>Phi (- x) = 1 - Phi x\<close>. An even number of terms of the series bounds the integral from
  below on the non-negative axis; with sixteen terms and \<open>pi \<le> 16/5\<close> this gives
  \<open>Phi 3 \<ge> 0.99\<close>, so every probability from 0.01 to 0.99 has its quantile.
\<close>

lemma gauss_coeff_abs_le: "\<bar>gauss_coeff k * y ^ k\<bar> \<le> inverse (fact k) * \<bar>y\<bar> ^ k"
proof -
  have "\<bar>gauss_coeff k\<bar> = (1 / 2) ^ k / (fact k * real (2 * k + 1))"
    by (simp add: gauss_coeff_def abs_mult power_abs)
  also have "\<dots> \<le> 1 / (fact k * 1)"
    by (intro frac_le mult_left_mono power_le_one) simp_all
  finally have "\<bar>gauss_coeff k\<bar> \<le> inverse (fact k)"
    by (simp add: inverse_eq_divide)
  then show ?thesis
    by (simp add: abs_mult power_abs mult_right_mono)
qed

lemma gauss_series_summable: "summable (\<lambda>k. gauss_coeff k * y ^ k)"
proof (rule summable_comparison_test)
  show "\<exists>N. \<forall>n\<ge>N. norm (gauss_coeff n * y ^ n) \<le> inverse (fact n) * \<bar>y\<bar> ^ n"
    using gauss_coeff_abs_le by simp
  show "summable (\<lambda>n. inverse (fact n) * \<bar>y\<bar> ^ n)"
    by (rule summable_exp)
qed

lemma gauss_series_deriv:
  "((\<lambda>y. \<Sum>k. gauss_coeff k * y ^ k) has_real_derivative (\<Sum>k. diffs gauss_coeff k * y ^ k)) (at y)"
  by (rule termdiffs_strong_converges_everywhere) (rule gauss_series_summable)

lemma gauss_series_ode:
  "(\<Sum>k. gauss_coeff k * y ^ k) + 2 * y * (\<Sum>k. diffs gauss_coeff k * y ^ k) = exp (- y / 2)"
proof -
  define a where "a = (\<lambda>k. gauss_coeff k * y ^ k)"
  define g where "g = (\<lambda>k. 2 * real k * gauss_coeff k * y ^ k)"
  define s' where "s' = (\<Sum>k. diffs gauss_coeff k * y ^ k)"
  have a: "a sums (\<Sum>k. a k)"
    unfolding a_def using gauss_series_summable by (rule summable_sums)
  have "summable (\<lambda>k. diffs gauss_coeff k * y ^ k)"
    by (rule termdiff_converges_all) (rule gauss_series_summable)
  then have "(\<lambda>k. diffs gauss_coeff k * y ^ k) sums s'"
    unfolding s'_def by (rule summable_sums)
  then have "(\<lambda>k. 2 * y * (diffs gauss_coeff k * y ^ k)) sums (2 * y * s')"
    by (rule sums_mult)
  moreover have "2 * y * (diffs gauss_coeff k * y ^ k) = g (Suc k)" for k
    by (simp add: diffs_def g_def algebra_simps)
  ultimately have "(\<lambda>k. g (Suc k)) sums (2 * y * s')"
    by simp
  then have "g sums (2 * y * s' + g 0)"
    by (rule sums_Suc_iff[THEN iffD1])
  then have g: "g sums (2 * y * s')"
    by (simp add: g_def)
  have "(\<lambda>k. a k + g k) sums ((\<Sum>k. a k) + 2 * y * s')"
    using a g by (rule sums_add)
  moreover have "a k + g k = (- y / 2) ^ k /\<^sub>R fact k" for k
  proof -
    have p: "(- 1 / 2) ^ k * y ^ k = (- y / 2) ^ k"
      using power_mult_distrib[of "- 1 / 2" y k] by simp
    have "a k + g k = real (2 * k + 1) * gauss_coeff k * y ^ k"
      by (simp add: a_def g_def algebra_simps)
    also have "\<dots> = ((- 1 / 2) ^ k * y ^ k) / fact k"
      by (simp add: gauss_coeff_def)
    finally have "a k + g k = (- y / 2) ^ k / fact k"
      unfolding p .
    then show ?thesis
      by (simp only: scaleR_conv_of_real divide_inverse of_real_inverse of_real_fact mult.commute)
  qed
  ultimately have "(\<lambda>k. (- y / 2) ^ k /\<^sub>R fact k) sums ((\<Sum>k. a k) + 2 * y * s')"
    by simp
  then have "(\<Sum>k. a k) + 2 * y * s' = exp (- y / 2)"
    using exp_converges[of "- y / 2"] by (rule sums_unique2)
  then show ?thesis
    by (simp add: a_def s'_def)
qed

lemma gauss_integral_deriv: "(gauss_integral has_real_derivative exp (- x\<^sup>2 / 2)) (at x)"
proof -
  have "((\<lambda>x. x * (\<Sum>k. gauss_coeff k * (x\<^sup>2) ^ k)) has_real_derivative
      (1 * (\<Sum>k. gauss_coeff k * (x\<^sup>2) ^ k)
        + x * ((\<Sum>k. diffs gauss_coeff k * (x\<^sup>2) ^ k) * (2 * x)))) (at x)"
    by (rule DERIV_mult DERIV_ident DERIV_chain2[OF gauss_series_deriv] derivative_eq_intros refl | simp)+
  moreover have "1 * (\<Sum>k. gauss_coeff k * (x\<^sup>2) ^ k)
        + x * ((\<Sum>k. diffs gauss_coeff k * (x\<^sup>2) ^ k) * (2 * x)) = exp (- x\<^sup>2 / 2)"
    using gauss_series_ode[of "x\<^sup>2"] by (simp add: power2_eq_square algebra_simps)
  ultimately show ?thesis
    unfolding gauss_integral_def[abs_def] by simp
qed

lemma Phi_deriv: "(Phi has_real_derivative exp (- x\<^sup>2 / 2) / sqrt (2 * pi)) (at x)"
proof -
  have "((\<lambda>x. gauss_integral x / sqrt (2 * pi)) has_real_derivative
      exp (- x\<^sup>2 / 2) / sqrt (2 * pi)) (at x)"
    by (rule DERIV_cdivide[OF gauss_integral_deriv])
  then have "((\<lambda>x. 1 / 2 + gauss_integral x / sqrt (2 * pi)) has_real_derivative
      0 + exp (- x\<^sup>2 / 2) / sqrt (2 * pi)) (at x)"
    by (rule DERIV_add[OF DERIV_const])
  then show ?thesis
    unfolding Phi_def[abs_def] by simp
qed

lemma Phi_strict_mono:
  assumes "a < b"
  shows "Phi a < Phi b"
proof (rule DERIV_pos_imp_increasing[OF assms])
  fix x :: real
  have "0 < exp (- x\<^sup>2 / 2) / sqrt (2 * pi)"
    by simp
  then show "\<exists>y. (Phi has_real_derivative y) (at x) \<and> 0 < y"
    using Phi_deriv by blast
qed

lemma Phi_mono: "a \<le> b \<Longrightarrow> Phi a \<le> Phi b"
  using Phi_strict_mono[of a b] by (cases "a = b") auto

lemma Phi_inj: "Phi a = Phi b \<Longrightarrow> a = b"
  using Phi_strict_mono[of a b] Phi_strict_mono[of b a] by (cases a b rule: linorder_cases) auto

lemma Phi_isCont: "isCont Phi x"
  using Phi_deriv by (rule DERIV_isCont)

lemma gauss_integral_zero: "gauss_integral 0 = 0"
  by (simp add: gauss_integral_def)

lemma gauss_integral_minus: "gauss_integral (- x) = - gauss_integral x"
  by (simp add: gauss_integral_def)

lemma Phi_zero: "Phi 0 = 1 / 2"
  by (simp add: Phi_def gauss_integral_zero)

lemma Phi_minus: "Phi (- x) = 1 - Phi x"
  by (simp add: Phi_def gauss_integral_minus)

lemma gauss_poly_deriv:
  "(gauss_poly n has_real_derivative (\<Sum>m<n. (- x\<^sup>2 / 2) ^ m / fact m)) (at x)"
  unfolding gauss_poly_def[abs_def]
proof (rule DERIV_sum)
  fix m
  have p: "(- 1 / 2) ^ m * (x\<^sup>2) ^ m = (- x\<^sup>2 / 2) ^ m"
    using power_mult_distrib[of "- 1 / 2" "x\<^sup>2" m] by simp
  have "gauss_coeff m * (real (2 * m + 1) * x ^ (2 * m + 1 - Suc 0))
      = ((- 1 / 2) ^ m * (x\<^sup>2) ^ m) / fact m"
    by (simp add: gauss_coeff_def power_mult)
  then have e: "gauss_coeff m * (real (2 * m + 1) * x ^ (2 * m + 1 - Suc 0)) = (- x\<^sup>2 / 2) ^ m / fact m"
    unfolding p .
  have "((\<lambda>x. gauss_coeff m * x ^ (2 * m + 1)) has_real_derivative
      gauss_coeff m * (real (2 * m + 1) * x ^ (2 * m + 1 - Suc 0))) (at x)"
    by (rule DERIV_cmult[OF DERIV_pow])
  then show "((\<lambda>x. gauss_coeff m * x ^ (2 * m + 1)) has_real_derivative
      (- x\<^sup>2 / 2) ^ m / fact m) (at x)"
    unfolding e .
qed

lemma exp_neg_ge_taylor:
  fixes u :: real
  assumes "even n"
  shows "(\<Sum>m<n. (- u) ^ m / fact m) \<le> exp (- u)"
proof -
  obtain t where t: "exp (- u) = (\<Sum>m<n. (- u) ^ m / fact m) + (exp t / fact n) * (- u) ^ n"
    using Maclaurin_exp_le[of "- u" n] by blast
  have "0 \<le> (- u) ^ n"
    using assms by (rule zero_le_even_power)
  then have "0 \<le> (exp t / fact n) * (- u) ^ n"
    by simp
  then show ?thesis
    using t by linarith
qed

lemma gauss_poly_le_integral:
  assumes "even n" and "0 \<le> b"
  shows "gauss_poly n b \<le> gauss_integral b"
proof -
  have "gauss_integral 0 - gauss_poly n 0 \<le> gauss_integral b - gauss_poly n b"
  proof (rule DERIV_nonneg_imp_nondecreasing[OF assms(2)])
    fix x :: real
    have d: "((\<lambda>x. gauss_integral x - gauss_poly n x) has_real_derivative
        (exp (- x\<^sup>2 / 2) - (\<Sum>m<n. (- x\<^sup>2 / 2) ^ m / fact m))) (at x)"
      by (rule DERIV_diff gauss_integral_deriv gauss_poly_deriv)+
    have "(\<Sum>m<n. (- (x\<^sup>2 / 2)) ^ m / fact m) \<le> exp (- (x\<^sup>2 / 2))"
      using assms(1) by (rule exp_neg_ge_taylor)
    then have "0 \<le> exp (- x\<^sup>2 / 2) - (\<Sum>m<n. (- x\<^sup>2 / 2) ^ m / fact m)"
      by simp
    then show "\<exists>y. ((\<lambda>x. gauss_integral x - gauss_poly n x) has_real_derivative y) (at x) \<and> 0 \<le> y"
      using d by blast
  qed
  then show ?thesis
    by (simp add: gauss_integral_zero gauss_poly_def)
qed

lemma sum_upto_numeral:
  "(\<Sum>m<numeral k. f m) = (\<Sum>m<pred_numeral k. f m) + f (pred_numeral k)" for f :: "nat \<Rightarrow> real"
  by (simp add: numeral_eq_Suc)

lemma gauss_poly_16_3: "gauss_poly 16 3 = 188708072461081461147 / 150986709281013760000"
  by (simp add: gauss_poly_def gauss_coeff_def sum_upto_numeral fact_numeral power_divide)

lemma cos_poly_8: "(\<Sum>m<8. cos_coeff m * x ^ m) = 1 - x\<^sup>2 / 2 + x ^ 4 / 24 - x ^ 6 / 720" for x :: real
  by (simp add: cos_coeff_def sum_upto_numeral fact_numeral)

lemma cos_8_5_negative: "cos (8 / 5 :: real) < 0"
proof -
  obtain t where t: "cos (8 / 5 :: real) = (\<Sum>m<8. cos_coeff m * (8 / 5) ^ m)
      + (cos (t + 1 / 2 * real 8 * pi) / fact 8) * (8 / 5) ^ 8"
    using Maclaurin_cos_expansion2[of "8 / 5" 8] by auto
  have "cos (t + 1 / 2 * real 8 * pi) / fact 8 \<le> 1 / fact 8"
    by (rule divide_right_mono) simp_all
  then have "(cos (t + 1 / 2 * real 8 * pi) / fact 8) * (8 / 5) ^ 8 \<le> (1 / fact 8) * ((8 / 5) ^ 8 :: real)"
    by (rule mult_right_mono) simp
  then have "cos (8 / 5 :: real) \<le> (1 - (8 / 5)\<^sup>2 / 2 + (8 / 5) ^ 4 / 24 - (8 / 5) ^ 6 / 720)
      + (1 / fact 8) * (8 / 5) ^ 8"
    unfolding t cos_poly_8 by linarith
  also have "\<dots> < 0"
    by (simp add: fact_numeral power_divide)
  finally show ?thesis .
qed

lemma pi_le_16_5: "pi \<le> 16 / 5"
proof (rule ccontr)
  assume "\<not> pi \<le> 16 / 5"
  then have "8 / 5 < pi / 2"
    by simp
  moreover have "- (pi / 2) < 8 / 5"
    using pi_gt_zero by linarith
  ultimately have "0 < cos (8 / 5 :: real)"
    by (intro cos_gt_zero_pi)
  then show False
    using cos_8_5_negative by simp
qed

lemma sqrt_2pi_le: "sqrt (2 * pi) \<le> 253 / 100"
proof (rule real_le_lsqrt)
  show "2 * pi \<le> (253 / 100)\<^sup>2"
    using pi_le_16_5 by (simp add: power2_eq_square)
qed simp

lemma Phi_3_ge: "99 / 100 \<le> Phi 3"
proof -
  have "gauss_poly 16 3 \<le> gauss_integral 3"
    by (rule gauss_poly_le_integral) simp_all
  then have g: "(49 / 100) * (253 / 100) \<le> gauss_integral 3"
    by (simp add: gauss_poly_16_3)
  have "(49 / 100) * sqrt (2 * pi) \<le> (49 / 100) * (253 / 100)"
    using sqrt_2pi_le by simp
  then have "(49 / 100) * sqrt (2 * pi) \<le> gauss_integral 3"
    using g by linarith
  then have "49 / 100 \<le> gauss_integral 3 / sqrt (2 * pi)"
    by (simp add: pos_le_divide_eq)
  then show ?thesis
    by (simp add: Phi_def)
qed

lemma quantile_exists:
  assumes "1 / 100 \<le> q" and "q \<le> 99 / 100"
  shows "\<exists>x. Phi x = q"
proof -
  have "Phi (- 3) \<le> q"
    using Phi_3_ge assms(1) by (simp add: Phi_minus)
  moreover have "q \<le> Phi 3"
    using Phi_3_ge assms(2) by simp
  ultimately have "\<exists>x. - 3 \<le> x \<and> x \<le> 3 \<and> Phi x = q"
    by (intro IVT) (simp_all add: Phi_isCont)
  then show ?thesis
    by blast
qed

lemma std_quantile_Phi: "std_quantile (Phi x) = x"
  unfolding std_quantile_def by (rule the_equality) (auto dest: Phi_inj)

lemma Phi_std_quantile:
  assumes "1 / 100 \<le> q" and "q \<le> 99 / 100"
  shows "Phi (std_quantile q) = q"
  using quantile_exists[OF assms] std_quantile_Phi by auto

lemma std_quantile_strict_mono:
  assumes "1 / 100 \<le> q1" and "q1 < q2" and "q2 \<le> 99 / 100"
  shows "std_quantile q1 < std_quantile q2"
proof (rule ccontr)
  assume "\<not> std_quantile q1 < std_quantile q2"
  then have "Phi (std_quantile q2) \<le> Phi (std_quantile q1)"
    by (intro Phi_mono) simp
  then have "q2 \<le> q1"
    using assms by (simp add: Phi_std_quantile)
  then show False
    using assms(2) by simp
qed

lemma std_quantile_half: "std_quantile (1 / 2) = 0"
  using std_quantile_Phi[of 0] by (simp add: Phi_zero)

lemma std_quantile_complement:
  assumes "1 / 100 \<le> q" and "q \<le> 99 / 100"
  shows "std_quantile (1 - q) = - std_quantile q"
proof -
  have "Phi (- std_quantile q) = 1 - q"
    by (simp add: Phi_minus Phi_std_quantile[OF assms])
  then show ?thesis
    using std_quantile_Phi[of "- std_quantile q"] by simp
qed

lemma norm_ppf_in_range:
  assumes "1 / 100 \<le> q" and "q \<le> 99 / 100"
  shows "norm_ppf q = Fin (std_quantile q)"
  using assms by (simp add: norm_ppf_def)

section \<open>Inference: the formulas of the interval and the test\<close>

lemma std_quantile_default_bounds:
  "0 < std_quantile (975 / 1000)" "std_quantile (975 / 1000) < 3"
proof -
  show "0 < std_quantile (975 / 1000)"
    using std_quantile_strict_mono[of "1 / 2" "975 / 1000"] by (simp add: std_quantile_half)
  have "Phi (std_quantile (975 / 1000)) < Phi 3"
    using Phi_3_ge by (simp add: Phi_std_quantile)
  then show "std_quantile (975 / 1000) < 3"
    using Phi_mono[of 3 "std_quantile (975 / 1000)"] by (cases "std_quantile (975 / 1000) < 3") auto
qed











section \<open>Inference: the minimum detectable effect and its arguments\<close>

lemma size_in_float_range:
  assumes "\<bar>n\<bar> < 2 ^ 63"
  shows "\<not> 2 ^ 1024 - 2 ^ 970 \<le> \<bar>n :: int\<bar>"
proof -
  have "(2 :: int) ^ 63 \<le> 2 ^ 1024 - 2 ^ 970"
    by simp
  then show ?thesis
    using assms by linarith
qed

lemma np_mul_not_finite:
  assumes "v = PInf \<or> v = NInf \<or> v = NaN"
  shows "np_mul s v = PInf \<or> np_mul s v = NInf \<or> np_mul s v = NaN"
  using assms by (cases s) (auto split: if_splits)

lemma compute_mde_value:
  assumes "n \<noteq> 0" and "\<bar>n\<bar> < 2 ^ 63"
  shows "compute_mde eng (PyFloat p) n pw =
       Inr (np_mul (np_add (norm_ppf (1 - alpha eng / 2)) (norm_ppf pw))
              (np_sqrt (Fin (2 * p * (1 - p) / real_of_int n))))"
    "compute_mde eng (NpFloat p) n pw =
       Inr (np_mul (np_add (norm_ppf (1 - alpha eng / 2)) (norm_ppf pw))
              (np_sqrt (Fin (2 * p * (1 - p) / real_of_int n))))"
  using assms(1) size_in_float_range[OF assms(2)]
  by (simp_all add: compute_mde_def float_div_int_def npfloat_div_int_def bind_err_def Let_def)

text \<open>A sample size that does not convert to a float raises \<open>OverflowError\<close>.\<close>

lemma compute_mde_overflow:
  "compute_mde eng (PyFloat p) (10 ^ 400) pw = Inl OverflowError"
  by (simp add: compute_mde_def float_div_int_def bind_err_def Let_def)

text \<open>
  C8 (amended). The operation checks none of its arguments, which are a float baseline
  rate, an integer sample size and a float power. With the sample size 0 and a Python
  float as the baseline rate it raises \<open>ZeroDivisionError\<close>; with the sample size 0 and a
  NumPy float as the baseline rate it raises nothing and returns \<open>inf\<close>, \<open>-inf\<close> or \<open>nan\<close>.
  For every sample size other than 0 and of magnitude below \<open>2^63\<close>, whatever the baseline
  rate and the power, it raises nothing and returns a float; for a power outside
  \<open>[0, 1]\<close> that float is \<open>nan\<close>.
\<close>

theorem compute_mde_unchecked:
  "compute_mde eng (PyFloat p) 0 pw = Inl ZeroDivisionError
   \<and> (\<exists>v. compute_mde eng (NpFloat p) 0 pw = Inr v \<and> (v = PInf \<or> v = NInf \<or> v = NaN))
   \<and> (n \<noteq> 0 \<and> \<bar>n\<bar> < 2 ^ 63
        \<longrightarrow> (\<exists>v. compute_mde eng (PyFloat p) n pw = Inr v)
          \<and> (\<exists>v. compute_mde eng (NpFloat p) n pw = Inr v))
   \<and> (n \<noteq> 0 \<and> \<bar>n\<bar> < 2 ^ 63 \<and> (pw < 0 \<or> 1 < pw)
        \<longrightarrow> compute_mde eng (PyFloat p) n pw = Inr NaN
          \<and> compute_mde eng (NpFloat p) n pw = Inr NaN)"
proof -
  have a: "compute_mde eng (PyFloat p) 0 pw = Inl ZeroDivisionError"
    by (simp add: compute_mde_def float_div_int_def bind_err_def Let_def)
  have "np_sqrt (np_div (Fin (2 * p * (1 - p))) (Fin 0)) = PInf
      \<or> np_sqrt (np_div (Fin (2 * p * (1 - p))) (Fin 0)) = NInf
      \<or> np_sqrt (np_div (Fin (2 * p * (1 - p))) (Fin 0)) = NaN"
    by simp
  then have b: "\<exists>v. compute_mde eng (NpFloat p) 0 pw = Inr v \<and> (v = PInf \<or> v = NInf \<or> v = NaN)"
    using np_mul_not_finite
    by (simp add: compute_mde_def npfloat_div_int_def bind_err_def Let_def)
  have c: "(\<exists>v. compute_mde eng (PyFloat p) n pw = Inr v)
          \<and> (\<exists>v. compute_mde eng (NpFloat p) n pw = Inr v)" if "n \<noteq> 0 \<and> \<bar>n\<bar> < 2 ^ 63"
    using compute_mde_value[of n eng p pw] that by simp
  have "norm_ppf pw = NaN" if "pw < 0 \<or> 1 < pw"
    using that by (auto simp: norm_ppf_def)
  then have "np_mul (np_add (norm_ppf (1 - alpha eng / 2)) (norm_ppf pw)) w = NaN"
    if "pw < 0 \<or> 1 < pw" for w
    using that by (simp add: np_add_NaN_right)
  then have d: "compute_mde eng (PyFloat p) n pw = Inr NaN
          \<and> compute_mde eng (NpFloat p) n pw = Inr NaN"
    if "n \<noteq> 0 \<and> \<bar>n\<bar> < 2 ^ 63 \<and> (pw < 0 \<or> 1 < pw)"
    using compute_mde_value[of n eng p pw] that by simp
  show ?thesis
    using a b c d by blast
qed

theorem compute_mde_unchecked_witness:
  "compute_mde (InferenceEngine_init None) (PyFloat (1 / 2)) 0 (8 / 10) = Inl ZeroDivisionError
   \<and> (100 :: int) \<noteq> 0 \<and> \<bar>100 :: int\<bar> < 2 ^ 63 \<and> (1 :: real) < 3 / 2
   \<and> compute_mde (InferenceEngine_init None) (PyFloat (1 / 2)) 100 (3 / 2) = Inr NaN
   \<and> compute_mde (InferenceEngine_init None) (NpFloat (1 / 2)) 100 (3 / 2) = Inr NaN"
proof -
  note t = compute_mde_unchecked[of "InferenceEngine_init None" "1 / 2" _ 100]
  have a: "compute_mde (InferenceEngine_init None) (PyFloat (1 / 2)) 0 (8 / 10) = Inl ZeroDivisionError"
    using t[of "8 / 10"] by (rule conjunct1)
  have b: "compute_mde (InferenceEngine_init None) (PyFloat (1 / 2)) 100 (3 / 2) = Inr NaN
     \<and> compute_mde (InferenceEngine_init None) (NpFloat (1 / 2)) 100 (3 / 2) = Inr NaN"
    using t[of "3 / 2", THEN conjunct2, THEN conjunct2, THEN conjunct2] by simp
  show ?thesis
    using a b by simp
qed

text \<open>
  A call with a negative sample size, a rate of one half and a power of 0.8 returns \<open>nan\<close>
  and raises nothing.
\<close>

theorem compute_mde_negative_size_returns_nan:
  "compute_mde (InferenceEngine_init None) (PyFloat (1 / 2)) (- 100) (8 / 10) = Inr NaN"
  by (simp add: compute_mde_def float_div_int_def bind_err_def Let_def np_mul_NaN_right)

section \<open>Inference: the minimum detectable effect and the sample size\<close>

lemma compute_mde_finite:
  assumes "0 < n" and "n \<le> 2 ^ 53" and "0 \<le> 2 * p * (1 - p) / real_of_int n"
    and "0 < alpha eng" and "alpha eng < 2" and "0 < pw" and "pw < 1"
  shows "compute_mde eng (PyFloat p) n pw =
       Inr (Fin ((std_quantile (1 - alpha eng / 2) + std_quantile pw)
                  * sqrt (2 * p * (1 - p) / real_of_int n)))"
    "compute_mde eng (NpFloat p) n pw =
       Inr (Fin ((std_quantile (1 - alpha eng / 2) + std_quantile pw)
                  * sqrt (2 * p * (1 - p) / real_of_int n)))"
proof -
  have "\<bar>n\<bar> < 2 ^ 63"
    using assms(1,2) by simp
  note v = compute_mde_value[OF _ this, of eng p pw]
  have q: "norm_ppf (1 - alpha eng / 2) = Fin (std_quantile (1 - alpha eng / 2))"
    "norm_ppf pw = Fin (std_quantile pw)"
    using assms(4-7) by (simp_all add: norm_ppf_def)
  have r: "\<not> 2 * p * (1 - p) / real_of_int n < 0"
    using assms(3) by linarith
  show "compute_mde eng (PyFloat p) n pw =
       Inr (Fin ((std_quantile (1 - alpha eng / 2) + std_quantile pw)
                  * sqrt (2 * p * (1 - p) / real_of_int n)))"
    using assms(1) r by (simp add: v(1) q del: mult_less_0_iff divide_less_0_iff)
  show "compute_mde eng (NpFloat p) n pw =
       Inr (Fin ((std_quantile (1 - alpha eng / 2) + std_quantile pw)
                  * sqrt (2 * p * (1 - p) / real_of_int n)))"
    using assms(1) r by (simp add: v(2) q del: mult_less_0_iff divide_less_0_iff)
qed

lemma variance_term_decreasing:
  assumes "0 < p" and "p < 1" and "0 < n" and "n < m"
  shows "sqrt (2 * p * (1 - p) / real_of_int m) < sqrt (2 * p * (1 - p) / real_of_int n)"
    "0 < 2 * p * (1 - p) / real_of_int m" "0 < 2 * p * (1 - p) / real_of_int n"
proof -
  have c: "0 < 2 * p * (1 - p)"
    using assms(1,2) by simp
  have nm: "0 < real_of_int n" "real_of_int n < real_of_int m"
    using assms(3,4) by simp_all
  show "0 < 2 * p * (1 - p) / real_of_int m" "0 < 2 * p * (1 - p) / real_of_int n"
    using c nm by simp_all
  have "2 * p * (1 - p) / real_of_int m < 2 * p * (1 - p) / real_of_int n"
    using c nm by (simp add: divide_strict_left_mono)
  then show "sqrt (2 * p * (1 - p) / real_of_int m) < sqrt (2 * p * (1 - p) / real_of_int n)"
    by simp
qed

lemma default_alpha: "alpha (InferenceEngine_init None) = 5 / 100"
  by (simp add: InferenceEngine_init_def CONFIDENCE_LEVEL_def)

lemma default_quantiles_positive:
  "0 < std_quantile (1 - alpha (InferenceEngine_init None) / 2) + std_quantile (8 / 10)"
proof -
  have "0 < std_quantile (8 / 10)"
    using std_quantile_strict_mono[of "1 / 2" "8 / 10"] by (simp add: std_quantile_half)
  then show ?thesis
    using std_quantile_default_bounds(1) by (simp add: default_alpha)
qed

lemma small_power_quantiles_negative:
  "std_quantile (1 - alpha (InferenceEngine_init None) / 2) + std_quantile (1 / 100) < 0"
proof -
  have "std_quantile (1 / 100) < std_quantile (25 / 1000)"
    using std_quantile_strict_mono[of "1 / 100" "25 / 1000"] by simp
  moreover have "std_quantile (1 - 25 / 1000) = - std_quantile (25 / 1000)"
    by (rule std_quantile_complement) simp_all
  ultimately show ?thesis
    by (simp add: default_alpha)
qed

text \<open>
  C9 (amended). Floats are read as real numbers. Take a baseline rate strictly between 0
  and 1, a power strictly between 0 and 1, an engine with \<open>alpha\<close> strictly between 0 and 2,
  and sample sizes \<open>0 < n < m\<close> up to \<open>2^53\<close> (the integers that a float holds exactly). If
  the sum of the two quantiles, of \<open>1 - alpha / 2\<close> and of the power, is positive, then the
  value for \<open>n\<close> is that sum times \<open>sqrt (2 p (1 - p) / n)\<close>, the value for \<open>m\<close> is that sum
  times \<open>sqrt (2 p (1 - p) / m)\<close>, and the value for \<open>n\<close> is greater than the value for
  \<open>m\<close>, whether the rate is a Python float or a NumPy float. In particular, at the default
  confidence level 0.95 and power 0.8 the value for the rate 0.035 and 25000 units is
  greater than the value for 100000 units.
\<close>

theorem compute_mde_decreasing_in_sample_size:
  assumes "0 < p" and "p < 1" and "0 < n" and "n < m" and "m \<le> 2 ^ 53"
    and "0 < alpha eng" and "alpha eng < 2" and "0 < pw" and "pw < 1"
    and "0 < std_quantile (1 - alpha eng / 2) + std_quantile pw"
  shows "(\<exists>a b. compute_mde eng (PyFloat p) n pw = Inr (Fin a)
           \<and> compute_mde eng (NpFloat p) n pw = Inr (Fin a)
           \<and> compute_mde eng (PyFloat p) m pw = Inr (Fin b)
           \<and> compute_mde eng (NpFloat p) m pw = Inr (Fin b)
           \<and> a = (std_quantile (1 - alpha eng / 2) + std_quantile pw)
                   * sqrt (2 * p * (1 - p) / real_of_int n)
           \<and> b = (std_quantile (1 - alpha eng / 2) + std_quantile pw)
                   * sqrt (2 * p * (1 - p) / real_of_int m)
           \<and> b < a)
     \<and> (\<exists>a b. compute_mde (InferenceEngine_init None) (PyFloat (35 / 1000)) 25000 (8 / 10)
                = Inr (Fin a)
           \<and> compute_mde (InferenceEngine_init None) (PyFloat (35 / 1000)) 100000 (8 / 10)
                = Inr (Fin b)
           \<and> b < a)"
proof -
  have order: "(\<exists>a b. compute_mde e (PyFloat r) k pw' = Inr (Fin a)
           \<and> compute_mde e (NpFloat r) k pw' = Inr (Fin a)
           \<and> compute_mde e (PyFloat r) l pw' = Inr (Fin b)
           \<and> compute_mde e (NpFloat r) l pw' = Inr (Fin b)
           \<and> a = (std_quantile (1 - alpha e / 2) + std_quantile pw')
                   * sqrt (2 * r * (1 - r) / real_of_int k)
           \<and> b = (std_quantile (1 - alpha e / 2) + std_quantile pw')
                   * sqrt (2 * r * (1 - r) / real_of_int l)
           \<and> b < a)"
    if h: "0 < r" "r < 1" "0 < k" "k < l" "l \<le> 2 ^ 53"
      "0 < alpha e" "alpha e < 2" "0 < pw'" "pw' < 1"
      "0 < std_quantile (1 - alpha e / 2) + std_quantile pw'"
    for e r k l pw'
  proof -
    note v = variance_term_decreasing[OF h(1-4)]
    have kl: "0 < l" "k \<le> 2 ^ 53"
      using h(3,4,5) by linarith+
    note ek = compute_mde_finite[OF h(3) kl(2) less_imp_le[OF v(3)] h(6-9)]
    note el = compute_mde_finite[OF kl(1) h(5) less_imp_le[OF v(2)] h(6-9)]
    have "(std_quantile (1 - alpha e / 2) + std_quantile pw') * sqrt (2 * r * (1 - r) / real_of_int l)
        < (std_quantile (1 - alpha e / 2) + std_quantile pw') * sqrt (2 * r * (1 - r) / real_of_int k)"
      using h(10) v(1) by (rule mult_strict_left_mono[rotated])
    then show ?thesis
      using ek el by blast
  qed
  have general: "\<exists>a b. compute_mde eng (PyFloat p) n pw = Inr (Fin a)
           \<and> compute_mde eng (NpFloat p) n pw = Inr (Fin a)
           \<and> compute_mde eng (PyFloat p) m pw = Inr (Fin b)
           \<and> compute_mde eng (NpFloat p) m pw = Inr (Fin b)
           \<and> a = (std_quantile (1 - alpha eng / 2) + std_quantile pw)
                   * sqrt (2 * p * (1 - p) / real_of_int n)
           \<and> b = (std_quantile (1 - alpha eng / 2) + std_quantile pw)
                   * sqrt (2 * p * (1 - p) / real_of_int m)
           \<and> b < a"
    using order[OF assms] .
  have "\<exists>a b. compute_mde (InferenceEngine_init None) (PyFloat (35 / 1000)) 25000 (8 / 10)
                = Inr (Fin a)
           \<and> compute_mde (InferenceEngine_init None) (NpFloat (35 / 1000)) 25000 (8 / 10)
                = Inr (Fin a)
           \<and> compute_mde (InferenceEngine_init None) (PyFloat (35 / 1000)) 100000 (8 / 10)
                = Inr (Fin b)
           \<and> compute_mde (InferenceEngine_init None) (NpFloat (35 / 1000)) 100000 (8 / 10)
                = Inr (Fin b)
           \<and> a = (std_quantile (1 - alpha (InferenceEngine_init None) / 2) + std_quantile (8 / 10))
                   * sqrt (2 * (35 / 1000) * (1 - 35 / 1000) / real_of_int 25000)
           \<and> b = (std_quantile (1 - alpha (InferenceEngine_init None) / 2) + std_quantile (8 / 10))
                   * sqrt (2 * (35 / 1000) * (1 - 35 / 1000) / real_of_int 100000)
           \<and> b < a"
    by (rule order[OF _ _ _ _ _ _ _ _ _ default_quantiles_positive]) (simp_all add: default_alpha)
  then have particular: "\<exists>a b. compute_mde (InferenceEngine_init None) (PyFloat (35 / 1000)) 25000 (8 / 10)
                = Inr (Fin a)
           \<and> compute_mde (InferenceEngine_init None) (PyFloat (35 / 1000)) 100000 (8 / 10)
                = Inr (Fin b)
           \<and> b < a"
    by blast
  show ?thesis
    using general particular by (rule conjI)
qed

text \<open>
  The rate 0.5 at the confidence level 0.9 and the power 0.9, for 100 and 400 units: the
  value for 400 units is half the value for 100 units.
\<close>

theorem compute_mde_decreasing_in_sample_size_witness:
  "(0 :: real) < 1 / 2 \<and> (0 :: int) < 100 \<and> (100 :: int) < 400 \<and> (400 :: int) \<le> 2 ^ 53
   \<and> alpha (InferenceEngine_init (Some (9 / 10))) = 1 / 10
   \<and> 0 < std_quantile (1 - alpha (InferenceEngine_init (Some (9 / 10))) / 2) + std_quantile (9 / 10)
   \<and> (\<exists>a b. compute_mde (InferenceEngine_init (Some (9 / 10))) (PyFloat (1 / 2)) 100 (9 / 10)
                = Inr (Fin a)
         \<and> compute_mde (InferenceEngine_init (Some (9 / 10))) (PyFloat (1 / 2)) 400 (9 / 10)
                = Inr (Fin b)
         \<and> b < a \<and> a = 2 * b)"
proof -
  let ?e = "InferenceEngine_init (Some (9 / 10))"
  have al: "alpha ?e = 1 / 10"
    by (simp add: InferenceEngine_init_def Let_def)
  have "0 < std_quantile (95 / 100)" "0 < std_quantile (9 / 10)"
    using std_quantile_strict_mono[of "1 / 2" "95 / 100"]
      std_quantile_strict_mono[of "1 / 2" "9 / 10"]
    by (simp_all add: std_quantile_half)
  then have pos: "0 < std_quantile (1 - alpha ?e / 2) + std_quantile (9 / 10)"
    by (simp add: al)
  have "\<exists>a b. compute_mde ?e (PyFloat (1 / 2)) 100 (9 / 10) = Inr (Fin a)
           \<and> compute_mde ?e (NpFloat (1 / 2)) 100 (9 / 10) = Inr (Fin a)
           \<and> compute_mde ?e (PyFloat (1 / 2)) 400 (9 / 10) = Inr (Fin b)
           \<and> compute_mde ?e (NpFloat (1 / 2)) 400 (9 / 10) = Inr (Fin b)
           \<and> a = (std_quantile (1 - alpha ?e / 2) + std_quantile (9 / 10))
                   * sqrt (2 * (1 / 2) * (1 - 1 / 2) / real_of_int 100)
           \<and> b = (std_quantile (1 - alpha ?e / 2) + std_quantile (9 / 10))
                   * sqrt (2 * (1 / 2) * (1 - 1 / 2) / real_of_int 400)
           \<and> b < a"
    using compute_mde_decreasing_in_sample_size[of "1 / 2" 100 400 ?e "9 / 10", THEN conjunct1] pos
    by (simp add: al)
  then obtain a b where ab: "compute_mde ?e (PyFloat (1 / 2)) 100 (9 / 10) = Inr (Fin a)"
    "compute_mde ?e (PyFloat (1 / 2)) 400 (9 / 10) = Inr (Fin b)"
    "a = (std_quantile (1 - alpha ?e / 2) + std_quantile (9 / 10))
                   * sqrt (2 * (1 / 2) * (1 - 1 / 2) / real_of_int 100)"
    "b = (std_quantile (1 - alpha ?e / 2) + std_quantile (9 / 10))
                   * sqrt (2 * (1 / 2) * (1 - 1 / 2) / real_of_int 400)"
    "b < a"
    by blast
  have s1: "sqrt (2 * (1 / 2) * (1 - 1 / 2) / real_of_int 100) = 2 * sqrt (1 / 800)"
    using real_sqrt_mult[of 4 "1 / 800"] by simp
  have s2: "sqrt (2 * (1 / 2) * (1 - 1 / 2) / real_of_int 400) = sqrt (1 / 800)"
    by simp
  have "a = 2 * b"
    unfolding ab(3,4) s1 s2 by simp
  then have ex: "\<exists>a b. compute_mde ?e (PyFloat (1 / 2)) 100 (9 / 10) = Inr (Fin a)
         \<and> compute_mde ?e (PyFloat (1 / 2)) 400 (9 / 10) = Inr (Fin b)
         \<and> b < a \<and> a = 2 * b"
    using ab(1,2,5) by blast
  have n: "(0 :: real) < 1 / 2 \<and> (0 :: int) < 100 \<and> (100 :: int) < 400 \<and> (400 :: int) \<le> 2 ^ 53"
    by simp
  show ?thesis
    using n al pos ex by blast
qed

text \<open>
  At the default confidence level 0.95 and the power 0.01 the sum of the two quantiles is
  negative, and the value for the rate 0.035 and 25000 units is less than the value for
  100000 units.
\<close>

theorem compute_mde_increasing_for_small_power:
  "\<exists>a b. compute_mde (InferenceEngine_init None) (PyFloat (35 / 1000)) 25000 (1 / 100) = Inr (Fin a)
     \<and> compute_mde (InferenceEngine_init None) (PyFloat (35 / 1000)) 100000 (1 / 100) = Inr (Fin b)
     \<and> a < b"
proof -
  let ?e = "InferenceEngine_init None"
  let ?z = "std_quantile (1 - alpha ?e / 2) + std_quantile (1 / 100)"
  have h: "(0 :: real) < 35 / 1000" "(35 / 1000 :: real) < 1" "(0 :: int) < 25000"
    "(25000 :: int) < 100000"
    by simp_all
  note v = variance_term_decreasing[OF h]
  have a: "0 < alpha ?e" "alpha ?e < 2" "(0 :: real) < 1 / 100" "(1 / 100 :: real) < 1"
    by (simp_all add: default_alpha)
  have en: "compute_mde ?e (PyFloat (35 / 1000)) 25000 (1 / 100)
      = Inr (Fin (?z * sqrt (2 * (35 / 1000) * (1 - 35 / 1000) / real_of_int 25000)))"
    by (rule compute_mde_finite(1)[OF _ _ less_imp_le[OF v(3)] a]) simp_all
  have em: "compute_mde ?e (PyFloat (35 / 1000)) 100000 (1 / 100)
      = Inr (Fin (?z * sqrt (2 * (35 / 1000) * (1 - 35 / 1000) / real_of_int 100000)))"
    by (rule compute_mde_finite(1)[OF _ _ less_imp_le[OF v(2)] a]) simp_all
  have "?z * sqrt (2 * (35 / 1000) * (1 - 35 / 1000) / real_of_int 25000)
      < ?z * sqrt (2 * (35 / 1000) * (1 - 35 / 1000) / real_of_int 100000)"
    using v(1) small_power_quantiles_negative by (rule mult_strict_left_mono_neg)
  then show ?thesis
    using en em by blast
qed

end
